theory Spec2Isabelle
  imports Complex_Main
begin

section \<open>The scanner-motor interfuse: data model\<close>

text \<open>
  A shallow embedding of the class \<open>ScannerMotorInterfuse\<close> of
  \<^verbatim>\<open>logic/interfuse/confocal_scanner_motor_interfuse.py\<close>.

  Python floats are modelled as \<open>real\<close>: the comparisons against the range bounds
  and the structure of the scan loop do not depend on rounding, and the mean of the count
  buffer is the exact mean (rounding and NaN coordinates are not modelled). \<open>np.float\<close>
  is the builtin \<open>float\<close>, as in the NumPy releases the module was written for.

  Every method takes the adapter's state and returns its outcome (a returned value or a
  raised exception) together with the state after the call, so that a mutation made before
  an early return or a raise stays visible.
\<close>

datatype exn = KeyError | IndexError | TypeError | AttributeError | ValueError | DeviceError

datatype 'a outcome = Returned 'a | Raised exn

datatype level = LogDebug | LogWarning | LogError

text \<open>
  What the adapter does to its collaborators, in order: the calls on the stage device,
  \<open>time.sleep\<close>, the reads of the counter logic's buffer (with the buffer that was read)
  and the log messages (by level).
\<close>

datatype event =
    MoveAbs "(string \<times> real) list"
  | OnTarget
  | GetPos
  | GetConstraints
  | Sleep real
  | ReadCounts "real list list"
  | Log level

text \<open>
  The two collaborators. Each answer may depend on everything the adapter did before the
  call (the trace). A dictionary is an association list in insertion order.
  \<open>stage_move_abs\<close> is \<open>None\<close> when the move is accepted and the exception otherwise;
  \<open>counter_countdata\<close> is the buffer \<open>countdata[channel][sample]\<close>.
\<close>

record env =
  stage_move_abs :: "event list \<Rightarrow> (string \<times> real) list \<Rightarrow> exn option"
  stage_get_pos :: "event list \<Rightarrow> (string \<times> real) list outcome"
  stage_get_constraints :: "event list \<Rightarrow> (string \<times> (string \<times> real) list) list outcome"
  stage_on_target :: "event list \<Rightarrow> int outcome"
  counter_countdata :: "event list \<Rightarrow> real list list"

text \<open>
  \<open>_current_position\<close> is a NumPy array after a successful read of the stage, the plain
  Python list \<open>_middle_xyz_pos\<close> after the fallback, and \<open>np.array(None)\<close> (a
  zero-dimensional array) when \<open>_get_scanner_position_init\<close> returned \<open>None\<close>.
\<close>

datatype position = NdArray "real list" | PyList "real list" | NdNone

text \<open>
  The attributes of the instance. An attribute that has not been assigned yet is \<open>None\<close>
  (reading it raises \<open>AttributeError\<close>).
\<close>

record state =
  scanner_position_ranges :: "real list list"
  current_position :: "position option"
  dwell_cnt_bins :: "int option"
  dwell_delay :: "real option"
  line_length :: "nat option"
  trace :: "event list"

definition emit :: "event list \<Rightarrow> state \<Rightarrow> state" where
  "emit evs st = st\<lparr>trace := trace st @ evs\<rparr>"

text \<open>The events a call added to the trace.\<close>

definition new_events :: "state \<Rightarrow> state \<Rightarrow> event list" where
  "new_events st st' = drop (length (trace st)) (trace st')"

section \<open>Position range accessors\<close>

definition get_position_range :: "state \<Rightarrow> real list list" where
  "get_position_range st = scanner_position_ranges st"

text \<open>The argument of \<open>set_position_range\<close>: omitted or \<open>None\<close>, a value that is not of
  an array type, or a table (a sequence of rows).\<close>

datatype range_arg = RangeNone | RangeNoArray | RangeTable "real list list"

text \<open>
  The loop \<open>for pos in myrange\<close>. Both error branches build their log message with the
  format code \<open>d\<close> applied to the row \<open>pos\<close> itself (\<open>{1:d}\<close> of \<open>.format(len(pos), pos)\<close>
  and \<open>{0:d}\<close> of \<open>.format(pos)\<close>); a sequence does not support that format code, so
  \<open>str.format\<close> raises \<open>TypeError\<close> before \<open>log.error\<close> and \<open>return -1\<close> are reached.
  \<open>None\<close> means that the loop ran to its end.
\<close>

fun check_rows :: "real list list \<Rightarrow> exn option" where
  "check_rows [] = None"
| "check_rows (pos # rest) =
     (if length pos \<noteq> 2 then Some TypeError
      else if pos ! 0 > pos ! 1 then Some TypeError
      else check_rows rest)"

definition default_range :: "real list list" where
  "default_range = [[0, 1 / 1000000], [0, 1 / 1000000], [0, 1 / 1000000], [0, 1 / 1000000]]"

definition set_position_range :: "state \<Rightarrow> range_arg \<Rightarrow> int outcome \<times> state" where
  "set_position_range st arg =
     (case (case arg of RangeNone \<Rightarrow> RangeTable default_range | _ \<Rightarrow> arg) of
        RangeTable myrange \<Rightarrow>
          if length myrange \<noteq> 4 then (Returned (- 1), emit [Log LogError] st)
          else (case check_rows myrange of
                  Some e \<Rightarrow> (Raised e, st)
                | None \<Rightarrow> (Returned 0, st\<lparr>scanner_position_ranges := myrange\<rparr>))
      | _ \<Rightarrow> (Returned (- 1), emit [Log LogError] st))"

section \<open>Setting and reading the position\<close>

text \<open>\<open>self._scanner_position_ranges[k][j]\<close>.\<close>

definition range_bound :: "state \<Rightarrow> nat \<Rightarrow> nat \<Rightarrow> real outcome" where
  "range_bound st k j =
     (let rs = scanner_position_ranges st in
      if k < length rs \<and> j < length (rs ! k) then Returned (rs ! k ! j) else Raised IndexError)"

text \<open>
  The chained comparison \<open>ranges[k][0] <= v <= ranges[k][1]\<close>: the upper bound is read
  only when the lower one holds.
\<close>

definition in_range :: "state \<Rightarrow> nat \<Rightarrow> real \<Rightarrow> bool outcome" where
  "in_range st k v =
     (case range_bound st k 0 of
        Raised e \<Rightarrow> Raised e
      | Returned lo \<Rightarrow>
          if lo \<le> v then
            (case range_bound st k 1 of
               Raised e \<Rightarrow> Raised e
             | Returned hi \<Rightarrow> Returned (v \<le> hi))
          else Returned False)"

text \<open>\<open>self._current_position[k] = np.float(v)\<close>.\<close>

definition store_coord :: "position option \<Rightarrow> nat \<Rightarrow> real \<Rightarrow> position option outcome" where
  "store_coord pos k v =
     (case pos of
        None \<Rightarrow> Raised AttributeError
      | Some (NdArray p) \<Rightarrow>
          if k < length p then Returned (Some (NdArray (p[k := v]))) else Raised IndexError
      | Some (PyList p) \<Rightarrow>
          if k < length p then Returned (Some (PyList (p[k := v]))) else Raised IndexError
      | Some NdNone \<Rightarrow> Raised IndexError)"

text \<open>
  One of the four blocks \<open>if x is not None: ...\<close> of \<open>scanner_set_position\<close>, for the axis
  with index \<open>k\<close> and name \<open>name\<close>. \<open>Inl\<close> leaves the method (the early \<open>return -1\<close> or a
  raise); \<open>Inr\<close> goes on to the next block with the state and the move dictionary.
\<close>

definition axis_block ::
  "nat \<Rightarrow> string \<Rightarrow> real option \<Rightarrow> state \<times> (string \<times> real) list \<Rightarrow>
   (int outcome \<times> state) + (state \<times> (string \<times> real) list)" where
  "axis_block k name arg sm =
     (case arg of
        None \<Rightarrow> Inr sm
      | Some v \<Rightarrow>
          (case in_range (fst sm) k v of
             Raised e \<Rightarrow> Inl (Raised e, fst sm)
           | Returned ok \<Rightarrow>
               if \<not> ok then Inl (Returned (- 1), emit [Log LogError] (fst sm))
               else (case store_coord (current_position (fst sm)) k v of
                       Raised e \<Rightarrow> Inl (Raised e, fst sm)
                     | Returned pos' \<Rightarrow>
                         Inr ((fst sm)\<lparr>current_position := pos'\<rparr>, snd sm @ [(name, v)]))))"

definition scanner_set_position ::
  "env \<Rightarrow> state \<Rightarrow> real option \<Rightarrow> real option \<Rightarrow> real option \<Rightarrow> real option \<Rightarrow>
   int outcome \<times> state" where
  "scanner_set_position env st x y z a =
     (case axis_block 0 ''x'' x (st, []) of
        Inl r \<Rightarrow> r
      | Inr sm1 \<Rightarrow>
     (case axis_block 1 ''y'' y sm1 of
        Inl r \<Rightarrow> r
      | Inr sm2 \<Rightarrow>
     (case axis_block 2 ''z'' z sm2 of
        Inl r \<Rightarrow> r
      | Inr sm3 \<Rightarrow>
     (case axis_block 3 ''a'' a sm3 of
        Inl r \<Rightarrow> r
      | Inr sm4 \<Rightarrow>
     (case stage_move_abs env (trace (fst sm4)) (snd sm4) of
        None \<Rightarrow> (Returned 0, emit [MoveAbs (snd sm4)] (fst sm4))
      | Some e \<Rightarrow> (Returned (- 1), emit [MoveAbs (snd sm4), Log LogError] (fst sm4)))))))"

text \<open>\<open>self._current_position.tolist()\<close>: a Python list has no \<open>tolist\<close>, and the
  zero-dimensional \<open>np.array(None)\<close> gives \<open>None\<close>.\<close>

definition get_scanner_position :: "state \<Rightarrow> real list option outcome" where
  "get_scanner_position st =
     (case current_position st of
        None \<Rightarrow> Raised AttributeError
      | Some (NdArray p) \<Rightarrow> Returned (Some p)
      | Some (PyList p) \<Rightarrow> Raised AttributeError
      | Some NdNone \<Rightarrow> Returned None)"

section \<open>The line scan\<close>

definition on_target :: "env \<Rightarrow> state \<Rightarrow> int outcome \<times> state" where
  "on_target env st = (stage_on_target env (trace st), emit [OnTarget] st)"

definition set_up_line :: "state \<Rightarrow> nat \<Rightarrow> int outcome \<times> state" where
  "set_up_line st n = (Returned 0, st\<lparr>line_length := Some n\<rparr>)"

text \<open>
  The argument of \<open>scan_line\<close>, by what the type check and \<open>np.shape\<close> see of it:
  \<^item> \<open>LineNoArray\<close>: a value that is not of an array type (the default \<open>None\<close> among them);
  \<^item> \<open>LineSet\<close>: a \<open>set\<close> or \<open>frozenset\<close>, whose \<open>np.shape\<close> is \<open>()\<close>;
  \<^item> \<open>LineArray1\<close>: a one-dimensional NumPy array, or a flat list or tuple of numbers;
  \<^item> \<open>LineArray2\<close>: a two-dimensional NumPy array, given column by column: element \<open>i\<close> of
    the list is \<open>line_path[:, i]\<close>, so a \<open>4 \<times> N\<close> path is a list of \<open>N\<close> columns of length 4;
  \<^item> \<open>LineNested\<close>: a list or tuple of rows, each a list or tuple of numbers, given row by
    row as Python has it: it passes the type check but does not support the index \<open>[:, i]\<close>.
  Arrays of more than two dimensions and entries that are not numbers are outside the model.
\<close>

datatype line_arg =
    LineNoArray
  | LineSet
  | LineArray1 "real list"
  | LineArray2 "real list list"
  | LineNested "real list list"

text \<open>
  \<open>np.shape\<close> of a nested sequence: two-dimensional when there is a row and all rows have
  the same length, and one-dimensional otherwise (NumPy before 1.24 builds an array of
  objects from an empty or ragged nesting).
\<close>

definition np_shape_nested :: "real list list \<Rightarrow> nat list" where
  "np_shape_nested rows =
     (if rows \<noteq> [] \<and> list_all (\<lambda>r. length r = length (hd rows)) rows
      then [length rows, length (hd rows)] else [length rows])"

text \<open>An entry of a NumPy float array: \<open>np.mean\<close> of an empty slice is \<open>nan\<close>.\<close>

datatype npfloat = Num real | NaN

definition np_mean :: "real list \<Rightarrow> npfloat" where
  "np_mean xs = (if xs = [] then NaN else Num (sum_list xs / real (length xs)))"

text \<open>
  The slice \<open>row[-k:]\<close>: the last \<open>k\<close> entries for \<open>k > 0\<close> (all of them when the row
  is shorter), the whole row for \<open>k = 0\<close>, and the row without its first \<open>- k\<close> entries
  for \<open>k < 0\<close>.
\<close>

definition last_bins :: "int \<Rightarrow> real list \<Rightarrow> real list" where
  "last_bins k row = (if k > 0 then drop (length row - nat k) row else drop (nat (- k)) row)"

text \<open>\<open>coords[j]\<close> of the column \<open>coords = line_path[:, i]\<close>.\<close>

definition coord :: "real list \<Rightarrow> nat \<Rightarrow> real outcome" where
  "coord coords j = (if j < length coords then Returned (coords ! j) else Raised IndexError)"

text \<open>The waiting of one pixel: the barrier for the first pixel, the dwell delay for the
  others (\<open>time.sleep\<close> refuses a negative delay).\<close>

definition wait_pixel :: "env \<Rightarrow> nat \<Rightarrow> state \<Rightarrow> unit outcome \<times> state" where
  "wait_pixel env i st =
     (if i = 0 then
        (case on_target env st of
           (Raised e, st') \<Rightarrow> (Raised e, st')
         | (Returned rc, st') \<Rightarrow> (Returned (), st'))
      else
        (case dwell_delay st of
           None \<Rightarrow> (Raised AttributeError, st)
         | Some d \<Rightarrow> if d < 0 then (Raised ValueError, st) else (Returned (), emit [Sleep d] st)))"

text \<open>\<open>np.mean(self._counter_logic.countdata[0, -self._dwell_cnt_bins:])\<close>.\<close>

definition sample_counts :: "env \<Rightarrow> state \<Rightarrow> npfloat outcome \<times> state" where
  "sample_counts env st =
     (let buf = counter_countdata env (trace st); st' = emit [ReadCounts buf] st in
      case dwell_cnt_bins st of
        None \<Rightarrow> (Raised AttributeError, st')
      | Some k \<Rightarrow>
          (case buf of
             [] \<Rightarrow> (Raised IndexError, st')
           | row # _ \<Rightarrow> (Returned (np_mean (last_bins k row)), st')))"

text \<open>The body of the loop \<open>for i in range(self._line_length)\<close>. The return value of
  \<open>scanner_set_position\<close> is not looked at.\<close>

definition scan_pixel ::
  "env \<Rightarrow> real list list \<Rightarrow> nat \<Rightarrow> state \<Rightarrow> npfloat list \<Rightarrow> npfloat list outcome \<times> state" where
  "scan_pixel env cols i st count_data =
     (if \<not> i < length cols then (Raised IndexError, st)
      else
        (case (coord (cols ! i) 0, coord (cols ! i) 1, coord (cols ! i) 2, coord (cols ! i) 3) of
           (Returned x, Returned y, Returned z, Returned a) \<Rightarrow>
             (case scanner_set_position env st (Some x) (Some y) (Some z) (Some a) of
                (Raised e, st1) \<Rightarrow> (Raised e, st1)
              | (Returned rc, st1) \<Rightarrow>
                  (case wait_pixel env i st1 of
                     (Raised e, st2) \<Rightarrow> (Raised e, st2)
                   | (Returned u, st2) \<Rightarrow>
                       (case sample_counts env st2 of
                          (Raised e, st3) \<Rightarrow> (Raised e, st3)
                        | (Returned v, st3) \<Rightarrow>
                            if i < length count_data then (Returned (count_data[i := v]), st3)
                            else (Raised IndexError, st3))))
         | _ \<Rightarrow> (Raised IndexError, st)))"

fun scan_loop ::
  "env \<Rightarrow> real list list \<Rightarrow> nat list \<Rightarrow> state \<Rightarrow> npfloat list \<Rightarrow> npfloat list outcome \<times> state" where
  "scan_loop env cols [] st count_data = (Returned count_data, st)"
| "scan_loop env cols (i # is) st count_data =
     (case scan_pixel env cols i st count_data of
        (Raised e, st') \<Rightarrow> (Raised e, st')
      | (Returned count_data', st') \<Rightarrow> scan_loop env cols is st' count_data')"

text \<open>What \<open>scan_line\<close> returns: the one-dimensional \<open>np.array([-1.])\<close>, or the
  two-dimensional \<open>np.array([count_data]).T\<close> given row by row.\<close>

datatype scan_result = Array1 "npfloat list" | Array2 "npfloat list list"

text \<open>
  \<open>scan_line\<close>. \<open>np.shape(line_path)[1]\<close> raises \<open>IndexError\<close> for a shape with fewer than
  two entries, before \<open>set_up_line\<close> is called. For a nested sequence the first pass of the
  loop raises \<open>TypeError\<close> at \<open>line_path[:, i]\<close>; with no column the loop is not entered.
\<close>

definition scan_line :: "env \<Rightarrow> state \<Rightarrow> line_arg \<Rightarrow> scan_result outcome \<times> state" where
  "scan_line env st line_path =
     (case line_path of
        LineNoArray \<Rightarrow> (Returned (Array1 [Num (- 1)]), emit [Log LogError] st)
      | LineSet \<Rightarrow> (Raised IndexError, st)
      | LineArray1 xs \<Rightarrow> (Raised IndexError, st)
      | LineArray2 cols \<Rightarrow>
          (let st0 = snd (set_up_line st (length cols));
               count_data = replicate (length cols) (Num 0)
           in case scan_loop env cols [0 ..< length cols] st0 count_data of
                (Raised e, st') \<Rightarrow> (Raised e, st')
              | (Returned count_data', st') \<Rightarrow>
                  (Returned (Array2 (map (\<lambda>v. [v]) count_data')), st'))
      | LineNested rows \<Rightarrow>
          (case np_shape_nested rows of
             [nrows, n] \<Rightarrow>
               (let st0 = snd (set_up_line st n);
                    count_data = replicate n (Num 0)
                in case [0 ..< n] of
                     [] \<Rightarrow> (Returned (Array2 (map (\<lambda>v. [v]) count_data)), st0)
                   | i # _ \<Rightarrow> (Raised TypeError, st0))
           | _ \<Rightarrow> (Raised IndexError, st)))"

section \<open>Activation\<close>

text \<open>\<open>_constraints_to_range\<close>; \<open>hw_constraints[axis]\<close> raises for an axis the
  dictionary does not have.\<close>

definition constraints_to_range ::
  "(string \<times> (string \<times> real) list) list \<Rightarrow> string \<Rightarrow> real list outcome" where
  "constraints_to_range hw_constraints axis =
     (if axis \<notin> set [''x'', ''y'', ''z''] then Returned [0, 0]
      else
        (case map_of hw_constraints axis of
           None \<Rightarrow> Raised KeyError
         | Some c \<Rightarrow>
             (case map_of c ''pos_min'' of
                None \<Rightarrow> Returned [0, 0]
              | Some pos_min \<Rightarrow>
                  (case map_of c ''pos_max'' of
                     None \<Rightarrow> Returned [0, 0]
                   | Some pos_max \<Rightarrow> Returned [pos_min, pos_max]))))"

text \<open>The four blocks \<open>if 'x' in hw_constraints.keys(): pos_range[0] = ...\<close>.\<close>

fun fill_pos_range ::
  "(string \<times> (string \<times> real) list) list \<Rightarrow> (nat \<times> string) list \<Rightarrow> real list list \<Rightarrow>
   real list list outcome" where
  "fill_pos_range hw [] pos_range = Returned pos_range"
| "fill_pos_range hw ((k, axis) # rest) pos_range =
     (if axis \<in> fst ` set hw then
        (case constraints_to_range hw axis of
           Raised e \<Rightarrow> Raised e
         | Returned r \<Rightarrow> fill_pos_range hw rest (pos_range[k := r]))
      else fill_pos_range hw rest pos_range)"

definition get_position_range_init :: "env \<Rightarrow> state \<Rightarrow> unit outcome \<times> state" where
  "get_position_range_init env st =
     (case stage_get_constraints env (trace st) of
        Raised e \<Rightarrow> (Raised e, emit [GetConstraints] st)
      | Returned hw_constraints \<Rightarrow>
          (case fill_pos_range hw_constraints [(0, ''x''), (1, ''y''), (2, ''z''), (3, ''a'')]
                  (replicate 4 [0, 0]) of
             Raised e \<Rightarrow> (Raised e, emit [GetConstraints] st)
           | Returned pos_range \<Rightarrow>
               (let stage_range = take 3 pos_range;
                    scan_range = take 3 (scanner_position_ranges st)
                in if scan_range = stage_range
                   then (Returned (), emit [GetConstraints, Log LogDebug] st)
                   else (Returned (), emit [GetConstraints, Log LogWarning] st))))"

text \<open>\<open>pos_dict = self._stage_hw.get_pos()\<close> followed by
  \<open>position = [pos_dict['x'], pos_dict['y'], pos_dict['z'], 0]\<close>, which
  \<open>_get_scanner_position_init\<close> does twice; \<open>tr\<close> is the trace before the query.\<close>

definition read_stage_position :: "env \<Rightarrow> event list \<Rightarrow> real list outcome" where
  "read_stage_position env tr =
     (case stage_get_pos env tr of
        Raised e \<Rightarrow> Raised e
      | Returned pos_dict \<Rightarrow>
          (case map_of pos_dict ''x'' of
             None \<Rightarrow> Raised KeyError
           | Some x \<Rightarrow>
               (case map_of pos_dict ''y'' of
                  None \<Rightarrow> Raised KeyError
                | Some y \<Rightarrow>
                    (case map_of pos_dict ''z'' of
                       None \<Rightarrow> Raised KeyError
                     | Some z \<Rightarrow> Returned [x, y, z, 0]))))"

text \<open>
  \<open>_get_scanner_position_init\<close>. After \<open>except KeyError\<close> the method falls off its
  end and returns \<open>None\<close>; an exception of the second query that is not a \<open>KeyError\<close> is
  not caught here. (Only subclasses of \<open>Exception\<close> are modelled.)
\<close>

definition get_scanner_position_init :: "env \<Rightarrow> state \<Rightarrow> real list option outcome \<times> state" where
  "get_scanner_position_init env st =
     (case read_stage_position env (trace st) of
        Returned position \<Rightarrow> (Returned (Some position), emit [GetPos] st)
      | Raised e \<Rightarrow>
          if e = KeyError then (Returned None, emit [GetPos, Log LogError] st)
          else
            (case read_stage_position env (trace st @ [GetPos, Sleep (1 / 10)]) of
               Returned position \<Rightarrow>
                 (Returned (Some position), emit [GetPos, Sleep (1 / 10), GetPos] st)
             | Raised e2 \<Rightarrow>
                 if e2 = KeyError
                 then (Returned None, emit [GetPos, Sleep (1 / 10), GetPos, Log LogError] st)
                 else (Raised e2, emit [GetPos, Sleep (1 / 10), GetPos] st)))"

text \<open>The loop \<open>for i in range(4)\<close> of \<open>on_activate\<close> that fills \<open>_middle_xyz_pos\<close>.\<close>

fun middle_loop :: "real list list \<Rightarrow> nat list \<Rightarrow> real list \<Rightarrow> real list outcome" where
  "middle_loop rs [] mid = Returned mid"
| "middle_loop rs (i # is) mid =
     (if i < length rs \<and> 1 < length (rs ! i)
      then middle_loop rs is (mid[i := (1 / 2) * (rs ! i ! 0 + rs ! i ! 1)])
      else Raised IndexError)"

text \<open>\<open>np.array(...)\<close> of what \<open>_get_scanner_position_init\<close> returned.\<close>

definition np_array :: "real list option \<Rightarrow> position" where
  "np_array r = (case r of None \<Rightarrow> NdNone | Some p \<Rightarrow> NdArray p)"

definition on_activate :: "env \<Rightarrow> state \<Rightarrow> int outcome \<times> state" where
  "on_activate env st =
     (case get_position_range_init env st of
        (Raised e, st1) \<Rightarrow> (Raised e, st1)
      | (Returned u, st1) \<Rightarrow>
          (case middle_loop (get_position_range st1) [0 ..< 4] [0, 0, 0, 0] of
             Raised e \<Rightarrow> (Raised e, st1)
           | Returned middle_xyz_pos \<Rightarrow>
               (case get_scanner_position_init env st1 of
                  (Raised e, st2) \<Rightarrow>
                    (Returned (- 1),
                     emit [Log LogError] (st2\<lparr>current_position := Some (PyList middle_xyz_pos)\<rparr>))
                | (Returned r, st2) \<Rightarrow>
                    (Returned 0,
                     st2\<lparr>current_position := Some (np_array r),
                         dwell_cnt_bins := Some 1,
                         dwell_delay := Some (2 / 100)\<rparr>))))"

section \<open>Vocabulary of the statements\<close>

text \<open>The events that wait for the stage or read the counter.\<close>

fun is_timing :: "event \<Rightarrow> bool" where
  "is_timing OnTarget = True"
| "is_timing (Sleep d) = True"
| "is_timing (ReadCounts b) = True"
| "is_timing e = False"

text \<open>The log messages among the events.\<close>

fun is_log :: "event \<Rightarrow> bool" where
  "is_log (Log l) = True"
| "is_log e = False"

text \<open>Every read among the events \<open>evs\<close>, which follow the trace \<open>tr\<close>, carries the buffer
  the counter held at that moment.\<close>

fun reads_from :: "env \<Rightarrow> event list \<Rightarrow> event list \<Rightarrow> bool" where
  "reads_from env tr [] = True"
| "reads_from env tr (e # evs) =
     ((case e of ReadCounts b \<Rightarrow> b = counter_countdata env tr | _ \<Rightarrow> True) \<and>
      reads_from env (tr @ [e]) evs)"

text \<open>The buffers that were read from the counter, in order.\<close>

definition reads :: "event list \<Rightarrow> real list list list" where
  "reads evs = concat (map (\<lambda>e. case e of ReadCounts b \<Rightarrow> [b] | _ \<Rightarrow> []) evs)"

text \<open>What a call may change besides the position: nothing but the trace, to which it adds
  no waiting and no read of the counter.\<close>

definition frame :: "state \<Rightarrow> state \<Rightarrow> bool" where
  "frame st st' \<longleftrightarrow>
     scanner_position_ranges st' = scanner_position_ranges st \<and>
     dwell_cnt_bins st' = dwell_cnt_bins st \<and>
     dwell_delay st' = dwell_delay st \<and>
     line_length st' = line_length st \<and>
     (\<exists>evs. trace st' = trace st @ evs \<and> filter is_timing evs = [])"

text \<open>An adapter whose range table is \<open>4 \<times> 2\<close> and whose position has four entries.\<close>

definition ready :: "state \<Rightarrow> bool" where
  "ready st \<longleftrightarrow>
     length (scanner_position_ranges st) = 4 \<and>
     (\<forall>r \<in> set (scanner_position_ranges st). length r = 2) \<and>
     (case current_position st of
        Some (NdArray p) \<Rightarrow> length p = 4
      | Some (PyList p) \<Rightarrow> length p = 4
      | _ \<Rightarrow> False)"

section \<open>Concrete adapters and collaborators\<close>

text \<open>A stage that accepts every move and reports \<open>a = 7\<close>, and a counter whose newest
  entry is the number of events so far.\<close>

definition demo_env :: env where
  "demo_env =
     \<lparr>stage_move_abs = (\<lambda>tr md. None),
      stage_get_pos = (\<lambda>tr. Returned [(''x'', 1), (''y'', 2), (''z'', 3), (''a'', 7)]),
      stage_get_constraints = (\<lambda>tr. Returned
        [(''x'', [(''pos_min'', 0), (''pos_max'', 10)]),
         (''y'', [(''pos_min'', 0), (''pos_max'', 10)]),
         (''z'', [(''pos_min'', 0), (''pos_max'', 10)])]),
      stage_on_target = (\<lambda>tr. Returned 0),
      counter_countdata = (\<lambda>tr. [[5, 7, real (length tr)]])\<rparr>"

text \<open>A stage that refuses every move and every position query with an error of its own.\<close>

definition broken_env :: env where
  "broken_env =
     demo_env\<lparr>stage_move_abs := (\<lambda>tr md. Some DeviceError),
              stage_get_pos := (\<lambda>tr. Raised DeviceError)\<rparr>"

text \<open>A stage whose position query raises \<open>KeyError\<close>.\<close>

definition keyerror_env :: env where
  "keyerror_env = demo_env\<lparr>stage_get_pos := (\<lambda>tr. Raised KeyError)\<rparr>"

text \<open>A stage whose first position query fails with an error of its own and whose later
  queries answer.\<close>

definition flaky_env :: env where
  "flaky_env =
     demo_env\<lparr>stage_get_pos := (\<lambda>tr. if GetPos \<in> set tr
        then Returned [(''x'', 4), (''y'', 5), (''z'', 6), (''a'', 7)] else Raised DeviceError)\<rparr>"

definition demo_state :: state where
  "demo_state =
     \<lparr>scanner_position_ranges = [[0, 10], [0, 10], [0, 10], [- 10, 10]],
      current_position = Some (NdArray [1, 1, 1, 1]),
      dwell_cnt_bins = Some 2,
      dwell_delay = Some (2 / 100),
      line_length = None,
      trace = []\<rparr>"

text \<open>The instance before activation: only the configured range table is there.\<close>

definition fresh_state :: state where
  "fresh_state =
     \<lparr>scanner_position_ranges = [[0, 10], [0, 10], [0, 10], [- 10, 10]],
      current_position = None,
      dwell_cnt_bins = None,
      dwell_delay = None,
      line_length = None,
      trace = []\<rparr>"

section \<open>Auxiliary lemmas\<close>

lemmas setpos_defs = scanner_set_position_def axis_block_def in_range_def range_bound_def
  store_coord_def emit_def

lemmas scan_defs = scan_line_def set_up_line_def scan_pixel_def coord_def wait_pixel_def
  on_target_def sample_counts_def np_mean_def last_bins_def

lemma check_rows_None: "check_rows t = None \<longleftrightarrow> (\<forall>r\<in>set t. length r = 2 \<and> r ! 0 \<le> r ! 1)"
  by (induction t) auto

lemma check_rows_Some: "check_rows t = Some e \<Longrightarrow> e = TypeError"
  by (induction t) (auto split: if_splits)

lemma frame_refl: "frame st st"
  by (simp add: frame_def)

lemma frame_trans: "frame a b \<Longrightarrow> frame b c \<Longrightarrow> frame a c"
  by (auto simp: frame_def)

lemma axis_block_frame:
  assumes "frame st (fst sm)"
  shows "case axis_block k name arg sm of
           Inl r \<Rightarrow> frame st (snd r)
         | Inr sm' \<Rightarrow> frame st (fst sm')"
proof -
  have "case axis_block k name arg sm of
           Inl r \<Rightarrow> frame (fst sm) (snd r)
         | Inr sm' \<Rightarrow> frame (fst sm) (fst sm')"
    by (auto simp: axis_block_def frame_def emit_def split: option.splits outcome.splits)
  with assms show ?thesis
    by (auto split: sum.splits intro: frame_trans)
qed

lemma move_frame:
  assumes "frame st (fst sm)"
  shows "frame st (snd (case stage_move_abs env (trace (fst sm)) (snd sm) of
        None \<Rightarrow> (Returned 0, emit [MoveAbs (snd sm)] (fst sm))
      | Some e \<Rightarrow> (Returned (- 1), emit [MoveAbs (snd sm), Log LogError] (fst sm))))"
proof -
  have "frame (fst sm) (snd (case stage_move_abs env (trace (fst sm)) (snd sm) of
        None \<Rightarrow> (Returned 0, emit [MoveAbs (snd sm)] (fst sm))
      | Some e \<Rightarrow> (Returned (- 1), emit [MoveAbs (snd sm), Log LogError] (fst sm))))"
    by (auto simp: frame_def emit_def split: option.splits)
  with assms show ?thesis by (rule frame_trans)
qed

lemma scanner_set_position_rule:
  assumes init: "P st"
    and block: "\<And>k name arg sm. k < 4 \<Longrightarrow> P (fst sm) \<Longrightarrow>
       (case axis_block k name arg sm of Inl r \<Rightarrow> Q r | Inr sm' \<Rightarrow> P (fst sm'))"
    and move: "\<And>sm. P (fst sm) \<Longrightarrow>
       Q (case stage_move_abs env (trace (fst sm)) (snd sm) of
            None \<Rightarrow> (Returned 0, emit [MoveAbs (snd sm)] (fst sm))
          | Some e \<Rightarrow> (Returned (- 1), emit [MoveAbs (snd sm), Log LogError] (fst sm)))"
  shows "Q (scanner_set_position env st x y z a)"
proof (cases "axis_block 0 ''x'' x (st, [])")
  case (Inl r)
  with block[of 0 "(st, [])" "''x''" x] init show ?thesis
    by (simp add: scanner_set_position_def)
next
  case sm1: (Inr sm1)
  with block[of 0 "(st, [])" "''x''" x] init have p1: "P (fst sm1)"
    by simp
  show ?thesis
  proof (cases "axis_block 1 ''y'' y sm1")
    case (Inl r)
    with block[OF _ p1, of 1 "''y''" y] sm1 show ?thesis
      by (simp add: scanner_set_position_def)
  next
    case sm2: (Inr sm2)
    with block[OF _ p1, of 1 "''y''" y] have p2: "P (fst sm2)"
      by simp
    show ?thesis
    proof (cases "axis_block 2 ''z'' z sm2")
      case (Inl r)
      with block[OF _ p2, of 2 "''z''" z] sm1 sm2 show ?thesis
        by (simp add: scanner_set_position_def)
    next
      case sm3: (Inr sm3)
      with block[OF _ p2, of 2 "''z''" z] have p3: "P (fst sm3)"
        by simp
      show ?thesis
      proof (cases "axis_block 3 ''a'' a sm3")
        case (Inl r)
        with block[OF _ p3, of 3 "''a''" a] sm1 sm2 sm3 show ?thesis
          by (simp add: scanner_set_position_def)
      next
        case sm4: (Inr sm4)
        with block[OF _ p3, of 3 "''a''" a] have p4: "P (fst sm4)"
          by simp
        from move[OF p4] sm1 sm2 sm3 sm4 show ?thesis
          by (simp add: scanner_set_position_def)
      qed
    qed
  qed
qed

lemma scanner_set_position_frame:
  "frame st (snd (scanner_set_position env st x y z a))"
  by (rule scanner_set_position_rule[where P = "frame st" and Q = "\<lambda>r. frame st (snd r)"])
     (simp_all add: frame_refl axis_block_frame move_frame)

lemma in_range_ready:
  assumes "k < 4" "ready st"
  shows "\<exists>ok. in_range st k v = Returned ok"
proof -
  let ?rs = "scanner_position_ranges st"
  from assms have k: "k < length ?rs" by (simp add: ready_def)
  then have "?rs ! k \<in> set ?rs" by simp
  with assms(2) have "length (?rs ! k) = 2" by (simp add: ready_def)
  with k have "range_bound st k 0 = Returned (?rs ! k ! 0)"
    "range_bound st k 1 = Returned (?rs ! k ! 1)"
    by (auto simp: range_bound_def Let_def)
  then show ?thesis
    by (auto simp: in_range_def)
qed

lemma store_coord_ready:
  assumes "k < 4" "ready st"
  shows "\<exists>pos'. store_coord (current_position st) k v = Returned pos' \<and>
           ready (st\<lparr>current_position := pos'\<rparr>)"
  using assms
  by (auto simp: store_coord_def ready_def split: option.splits position.splits)

lemma axis_block_ready:
  assumes "k < 4" "ready (fst sm)"
  shows "case axis_block k name arg sm of
           Inl r \<Rightarrow> (\<exists>rc. fst r = Returned rc) \<and> ready (snd r)
         | Inr sm' \<Rightarrow> ready (fst sm')"
proof (cases arg)
  case None
  with assms show ?thesis by (simp add: axis_block_def)
next
  case (Some v)
  from in_range_ready[OF assms] obtain ok where ok: "in_range (fst sm) k v = Returned ok"
    by blast
  from store_coord_ready[OF assms] obtain pos' where
    pos': "store_coord (current_position (fst sm)) k v = Returned pos'"
      "ready ((fst sm)\<lparr>current_position := pos'\<rparr>)"
    by blast
  from assms(2) have "ready (emit [Log LogError] (fst sm))"
    by (simp add: ready_def emit_def)
  with Some ok pos' show ?thesis
    by (simp add: axis_block_def)
qed

lemma scanner_set_position_ready:
  assumes "ready st"
  shows "(\<exists>rc. fst (scanner_set_position env st x y z a) = Returned rc) \<and>
         ready (snd (scanner_set_position env st x y z a))"
proof (rule scanner_set_position_rule[where P = ready
        and Q = "\<lambda>r. (\<exists>rc. fst r = Returned rc) \<and> ready (snd r)"])
  show "ready st" by (rule assms)
next
  fix k :: nat and name arg and sm :: "state \<times> (string \<times> real) list"
  assume "k < 4" "ready (fst sm)"
  then show "case axis_block k name arg sm of
           Inl r \<Rightarrow> (\<exists>rc. fst r = Returned rc) \<and> ready (snd r)
         | Inr sm' \<Rightarrow> ready (fst sm')"
    by (rule axis_block_ready)
next
  fix sm :: "state \<times> (string \<times> real) list"
  assume "ready (fst sm)"
  then show "(\<exists>rc. fst (case stage_move_abs env (trace (fst sm)) (snd sm) of
            None \<Rightarrow> (Returned 0, emit [MoveAbs (snd sm)] (fst sm))
          | Some e \<Rightarrow> (Returned (- 1), emit [MoveAbs (snd sm), Log LogError] (fst sm))) = Returned rc) \<and>
        ready (snd (case stage_move_abs env (trace (fst sm)) (snd sm) of
            None \<Rightarrow> (Returned 0, emit [MoveAbs (snd sm)] (fst sm))
          | Some e \<Rightarrow> (Returned (- 1), emit [MoveAbs (snd sm), Log LogError] (fst sm))))"
    by (auto simp: ready_def emit_def split: option.splits)
qed

lemma wait_pixel_cases:
  assumes "wait_pixel env i st = (Returned u, st')"
  shows "\<exists>w. st' = emit [w] st \<and>
           (i = 0 \<and> w = OnTarget \<or> i \<noteq> 0 \<and> (\<exists>d. dwell_delay st = Some d \<and> w = Sleep d))"
  using assms
  by (auto simp: wait_pixel_def on_target_def split: if_splits outcome.splits option.splits)

lemma sample_counts_cases:
  assumes "sample_counts env st = (Returned v, st')"
  shows "\<exists>b k. dwell_cnt_bins st = Some k \<and> b \<noteq> [] \<and> st' = emit [ReadCounts b] st \<and>
           v = np_mean (last_bins k (hd b))"
  using assms
  by (auto simp: sample_counts_def Let_def split: list.splits option.splits)

lemma scan_pixel_cases:
  assumes "scan_pixel env cols i st cd = (Returned cd', st')"
  shows "\<exists>rc st1 w b k. scanner_set_position env st (Some (cols ! i ! 0)) (Some (cols ! i ! 1))
             (Some (cols ! i ! 2)) (Some (cols ! i ! 3)) = (Returned rc, st1) \<and>
           (i = 0 \<and> w = OnTarget \<or> i \<noteq> 0 \<and> (\<exists>d. dwell_delay st = Some d \<and> w = Sleep d)) \<and>
           dwell_cnt_bins st = Some k \<and>
           b \<noteq> [] \<and> i < length cd \<and>
           st' = emit [w, ReadCounts b] st1 \<and>
           cd' = cd[i := np_mean (last_bins k (hd b))]"
proof -
  let ?c = "cols ! i"
  from assms(1) have i: "i < length cols"
    and cs: "coord ?c 0 = Returned (?c ! 0)" "coord ?c 1 = Returned (?c ! 1)"
      "coord ?c 2 = Returned (?c ! 2)" "coord ?c 3 = Returned (?c ! 3)"
    by (auto simp: scan_pixel_def coord_def split: if_splits outcome.splits)
  let ?r = "scanner_set_position env st (Some (?c ! 0)) (Some (?c ! 1)) (Some (?c ! 2)) (Some (?c ! 3))"
  from assms(1) i cs obtain rc st1 where r: "?r = (Returned rc, st1)"
    by (cases ?r; cases "fst ?r") (auto simp: scan_pixel_def)
  from assms(1) i cs r obtain u st2 where w: "wait_pixel env i st1 = (Returned u, st2)"
    by (cases "wait_pixel env i st1"; cases "fst (wait_pixel env i st1)") (auto simp: scan_pixel_def)
  from assms(1) i cs r w obtain v st3 where s: "sample_counts env st2 = (Returned v, st3)"
    by (cases "sample_counts env st2"; cases "fst (sample_counts env st2)") (auto simp: scan_pixel_def)
  from assms(1) i cs r w s have fin: "i < length cd" "cd' = cd[i := v]" "st' = st3"
    by (auto simp: scan_pixel_def split: if_splits)
  from scanner_set_position_frame[of st env "Some (?c ! 0)" "Some (?c ! 1)" "Some (?c ! 2)"
      "Some (?c ! 3)"] r
  have f: "dwell_delay st1 = dwell_delay st" "dwell_cnt_bins st1 = dwell_cnt_bins st"
    by (auto simp: frame_def)
  from wait_pixel_cases[OF w] f obtain ev where
    ev: "st2 = emit [ev] st1"
      "i = 0 \<and> ev = OnTarget \<or> i \<noteq> 0 \<and> (\<exists>d. dwell_delay st = Some d \<and> ev = Sleep d)"
    by auto
  from sample_counts_cases[OF s] obtain b k where
    b: "dwell_cnt_bins st2 = Some k" "b \<noteq> []" "st3 = emit [ReadCounts b] st2"
      "v = np_mean (last_bins k (hd b))"
    by blast
  from b(1) ev(1) f have "dwell_cnt_bins st = Some k" by (simp add: emit_def)
  with r b ev fin show ?thesis
    by (auto simp: emit_def)
qed


lemma fold_store_upt:
  "m + length bs \<le> length cd \<Longrightarrow>
   fold (\<lambda>(i, b) c. c[i := f b]) (zip [m ..< m + length bs] bs) cd
     = take m cd @ map f bs @ drop (m + length bs) cd"
proof (induction bs arbitrary: m cd)
  case Nil
  then show ?case by simp
next
  case (Cons b bs)
  have upt: "[m ..< m + length (b # bs)] = m # [Suc m ..< Suc m + length bs]"
    using upt_conv_Cons[of m "Suc m + length bs"] by simp
  from Cons.prems have len: "Suc m + length bs \<le> length (cd[m := f b])" "m < length cd"
    by simp_all
  have "fold (\<lambda>(i, b) c. c[i := f b]) (zip [m ..< m + length (b # bs)] (b # bs)) cd
      = fold (\<lambda>(i, b) c. c[i := f b]) (zip [Suc m ..< Suc m + length bs] bs) (cd[m := f b])"
    unfolding upt by simp
  also have "\<dots> = take (Suc m) (cd[m := f b]) @ map f bs @ drop (Suc m + length bs) (cd[m := f b])"
    by (rule Cons.IH[OF len(1)])
  also have "take (Suc m) (cd[m := f b]) = take m cd @ [f b]"
    using len(2) by (simp add: take_Suc_conv_app_nth)
  also have "drop (Suc m + length bs) (cd[m := f b]) = drop (m + length (b # bs)) cd"
    by simp
  finally show ?case by simp
qed


lemma reads_append: "reads (xs @ ys) = reads xs @ reads ys"
  by (simp add: reads_def)

lemma reads_filter_timing: "reads (filter is_timing evs) = reads evs"
proof (induction evs)
  case Nil
  then show ?case by simp
next
  case (Cons e evs)
  then show ?case by (cases e) (simp_all add: reads_def)
qed

lemma reads_pixels:
  "length is = length bufs \<Longrightarrow>
   reads (concat (map (\<lambda>(i, b). [if i = 0 then OnTarget else Sleep d, ReadCounts b]) (zip is bufs)))
     = bufs"
  by (induction "is" bufs rule: list_induct2) (simp_all add: reads_def)

lemma scan_pixel_ready:
  assumes rd: "ready st" and k: "dwell_cnt_bins st = Some k"
    and d: "dwell_delay st = Some d" "0 \<le> d"
    and tgt: "\<forall>tr. \<exists>rc. stage_on_target env tr = Returned rc"
    and cnt: "\<forall>tr. counter_countdata env tr \<noteq> []"
    and i: "i < length cols" "length (cols ! i) = 4" "i < length cd"
  shows "\<exists>cd' st'. scan_pixel env cols i st cd = (Returned cd', st') \<and> ready st' \<and>
           dwell_cnt_bins st' = Some k \<and> dwell_delay st' = Some d \<and> length cd' = length cd"
proof -
  let ?c = "cols ! i"
  let ?r = "scanner_set_position env st (Some (?c ! 0)) (Some (?c ! 1)) (Some (?c ! 2)) (Some (?c ! 3))"
  from i(2) have cs: "coord ?c 0 = Returned (?c ! 0)" "coord ?c 1 = Returned (?c ! 1)"
      "coord ?c 2 = Returned (?c ! 2)" "coord ?c 3 = Returned (?c ! 3)"
    by (simp_all add: coord_def)
  from scanner_set_position_ready[OF rd, of env "Some (?c ! 0)" "Some (?c ! 1)" "Some (?c ! 2)"
      "Some (?c ! 3)"]
  obtain rc st1 where r: "?r = (Returned rc, st1)" and rd1: "ready st1"
    by (cases ?r) auto
  from scanner_set_position_frame[of st env "Some (?c ! 0)" "Some (?c ! 1)" "Some (?c ! 2)"
      "Some (?c ! 3)"] r k d
  have f1: "dwell_cnt_bins st1 = Some k" "dwell_delay st1 = Some d"
    by (simp_all add: frame_def)
  define st2 where "st2 = emit [if i = 0 then OnTarget else Sleep d] st1"
  from tgt obtain rc' where "stage_on_target env (trace st1) = Returned rc'" by blast
  with f1 d(2) have w: "wait_pixel env i st1 = (Returned (), st2)"
    by (simp add: wait_pixel_def on_target_def st2_def)
  from cnt obtain row rows where buf: "counter_countdata env (trace st2) = row # rows"
    by (cases "counter_countdata env (trace st2)") auto
  from f1 have k2: "dwell_cnt_bins st2 = Some k" by (simp add: st2_def emit_def)
  define st3 where "st3 = emit [ReadCounts (row # rows)] st2"
  from buf k2 have s: "sample_counts env st2 = (Returned (np_mean (last_bins k row)), st3)"
    by (simp add: sample_counts_def st3_def)
  from i cs r w s have "scan_pixel env cols i st cd = (Returned (cd[i := np_mean (last_bins k row)]), st3)"
    by (simp add: scan_pixel_def)
  moreover from rd1 have "ready st3"
    by (simp add: ready_def st3_def st2_def emit_def)
  moreover from f1 have "dwell_cnt_bins st3 = Some k" "dwell_delay st3 = Some d"
    by (simp_all add: st3_def st2_def emit_def)
  ultimately show ?thesis by simp
qed

lemma scan_loop_ready:
  assumes "ready st" "dwell_cnt_bins st = Some k" "dwell_delay st = Some d" "0 \<le> d"
    and tgt: "\<forall>tr. \<exists>rc. stage_on_target env tr = Returned rc"
    and cnt: "\<forall>tr. counter_countdata env tr \<noteq> []"
    and "\<forall>i \<in> set is. i < length cols \<and> length (cols ! i) = 4 \<and> i < length cd"
  shows "\<exists>cd' st'. scan_loop env cols is st cd = (Returned cd', st')"
  using assms(1-4,7)
proof (induction "is" arbitrary: st cd)
  case Nil
  then show ?case by simp
next
  case (Cons i "is")
  from Cons.prems(5) have i: "i < length cols" "length (cols ! i) = 4" "i < length cd"
    by simp_all
  from scan_pixel_ready[OF Cons.prems(1-4) tgt cnt i] obtain cd1 st1 where
    px: "scan_pixel env cols i st cd = (Returned cd1, st1)" "ready st1"
      "dwell_cnt_bins st1 = Some k" "dwell_delay st1 = Some d" "length cd1 = length cd"
    by blast
  from Cons.prems(5) px(5)
  have "\<forall>i \<in> set is. i < length cols \<and> length (cols ! i) = 4 \<and> i < length cd1"
    by simp
  from Cons.IH[OF px(2-4) Cons.prems(4) this] px(1) show ?case
    by simp
qed

lemma reads_no_timing: "filter is_timing evs = [] \<Longrightarrow> reads evs = []"
  using reads_filter_timing[of evs] by (simp add: reads_def)

lemma scan_pixel_trace:
  assumes "scan_pixel env cols i st cd = (Returned cd', st')"
  shows "\<exists>evs. trace st' = trace st @ evs \<and> length (reads evs) = 1 \<and> length cd' = length cd \<and>
           frame st (st'\<lparr>trace := trace st\<rparr>)"
proof -
  let ?c = "cols ! i"
  from scan_pixel_cases[OF assms] obtain rc st1 w b k where
    r: "scanner_set_position env st (Some (?c ! 0)) (Some (?c ! 1)) (Some (?c ! 2)) (Some (?c ! 3))
          = (Returned rc, st1)"
    and w0: "i = 0 \<and> w = OnTarget \<or> i \<noteq> 0 \<and> (\<exists>d. dwell_delay st = Some d \<and> w = Sleep d)"
    and st': "st' = emit [w, ReadCounts b] st1"
    and cd0: "cd' = cd[i := np_mean (last_bins k (hd b))]"
    by blast
  from w0 have w: "w = OnTarget \<or> (\<exists>d. w = Sleep d)" by blast
  from cd0 have cd': "length cd' = length cd" by simp
  from scanner_set_position_frame[of st env "Some (?c ! 0)" "Some (?c ! 1)" "Some (?c ! 2)"
      "Some (?c ! 3)"] r
  have fr: "frame st st1" by simp
  then obtain evs0 where evs0: "trace st1 = trace st @ evs0" "filter is_timing evs0 = []"
    by (auto simp: frame_def)
  from w have "reads [w, ReadCounts b] = [b]" by (auto simp: reads_def)
  with evs0 have "length (reads (evs0 @ [w, ReadCounts b])) = 1"
    by (simp add: reads_append reads_no_timing)
  moreover from st' evs0 have "trace st' = trace st @ (evs0 @ [w, ReadCounts b])"
    by (simp add: emit_def)
  moreover from fr st' have "frame st (st'\<lparr>trace := trace st\<rparr>)"
    by (simp add: frame_def emit_def)
  ultimately show ?thesis using cd' by blast
qed

lemma scan_loop_trace:
  assumes "scan_loop env cols is st cd = (Returned cd', st')"
  shows "\<exists>evs. trace st' = trace st @ evs \<and> length (reads evs) = length is \<and>
           length cd' = length cd"
  using assms
proof (induction "is" arbitrary: st cd)
  case Nil
  then show ?case by (simp add: reads_def)
next
  case (Cons i "is")
  from Cons.prems(1) obtain cd1 st1 where
    px: "scan_pixel env cols i st cd = (Returned cd1, st1)"
    and lp: "scan_loop env cols is st1 cd1 = (Returned cd', st')"
    by (cases "scan_pixel env cols i st cd"; cases "fst (scan_pixel env cols i st cd)") auto
  from scan_pixel_trace[OF px] obtain evs1 where
    e1: "trace st1 = trace st @ evs1" "length (reads evs1) = 1" "length cd1 = length cd"
    by blast
  from Cons.IH[OF lp] obtain evs2 where
    e2: "trace st' = trace st1 @ evs2" "length (reads evs2) = length is" "length cd' = length cd1"
    by blast
  from e1 e2 have "trace st' = trace st @ (evs1 @ evs2)"
    "length (reads (evs1 @ evs2)) = length (i # is)" "length cd' = length cd"
    by (simp_all add: reads_append)
  then show ?case by blast
qed

lemma scan_loop_Raised:
  assumes "scan_loop env cols is st cd = (Raised e, st')"
  shows "\<exists>pre i post cd_i st_i. is = pre @ i # post \<and>
           scan_loop env cols pre st cd = (Returned cd_i, st_i) \<and>
           scan_pixel env cols i st_i cd_i = (Raised e, st')"
  using assms
proof (induction "is" arbitrary: st cd)
  case Nil
  then show ?case by simp
next
  case (Cons i "is")
  show ?case
  proof (cases "scan_pixel env cols i st cd")
    case (Pair out st1)
    show ?thesis
    proof (cases out)
      case (Raised e1)
      with Pair Cons.prems have "scan_pixel env cols i st cd = (Raised e, st')" by simp
      then have "i # is = [] @ i # is \<and> scan_loop env cols [] st cd = (Returned cd, st) \<and>
          scan_pixel env cols i st cd = (Raised e, st')"
        by simp
      then show ?thesis by blast
    next
      case (Returned cd1)
      with Pair Cons.prems have lp: "scan_loop env cols is st1 cd1 = (Raised e, st')" by simp
      from Cons.IH[OF lp] obtain pre j post cd_j st_j where
        ih: "is = pre @ j # post" "scan_loop env cols pre st1 cd1 = (Returned cd_j, st_j)"
          "scan_pixel env cols j st_j cd_j = (Raised e, st')"
        by blast
      from ih Pair Returned have "i # is = (i # pre) @ j # post \<and>
          scan_loop env cols (i # pre) st cd = (Returned cd_j, st_j) \<and>
          scan_pixel env cols j st_j cd_j = (Raised e, st')"
        by simp
      then show ?thesis by blast
    qed
  qed
qed

lemma upt_split:
  assumes "[0 ..< n] = pre @ i # post"
  shows "pre = [0 ..< i] \<and> i < n"
proof -
  have len: "length pre < n"
    using arg_cong[OF assms, of length] by simp
  have "[0 ..< n] ! length pre = i" using assms by simp
  with len have i: "i = length pre" by simp
  have "take (length pre) [0 ..< n] = pre" using assms by simp
  with len have "pre = [0 ..< length pre]" by simp
  with i len show ?thesis by simp
qed


lemma demo_scan:
  "scan_line demo_env demo_state (LineArray2 [[1, 2, 3, 0], [2, 2, 3, 0]]) =
     (Returned (Array2 [[Num (9 / 2)], [Num 6]]),
      demo_state\<lparr>line_length := Some 2, current_position := Some (NdArray [2, 2, 3, 0]),
        trace := [MoveAbs [(''x'', 1), (''y'', 2), (''z'', 3), (''a'', 0)], OnTarget,
                  ReadCounts [[5, 7, 2]],
                  MoveAbs [(''x'', 2), (''y'', 2), (''z'', 3), (''a'', 0)], Sleep (2 / 100),
                  ReadCounts [[5, 7, 5]]]\<rparr>)"
  by (simp add: scan_defs setpos_defs demo_state_def demo_env_def upt_rec)

lemma get_position_range_init_emit:
  assumes "get_position_range_init env st = (out, st1)"
  shows "\<exists>evs. st1 = emit evs st"
  using assms
  by (auto simp: get_position_range_init_def Let_def split: outcome.splits if_splits)

lemma middle_loop_explicit:
  "middle_loop [[l0, h0], [l1, h1], [l2, h2], [l3, h3]] [0 ..< 4] [0, 0, 0, 0]
     = Returned [(l0 + h0) / 2, (l1 + h1) / 2, (l2 + h2) / 2, (l3 + h3) / 2]"
  by (simp add: upt_rec)

lemma replicate_4: "replicate 4 x = [x, x, x, x]"
  by (simp add: eval_nat_numeral)

lemma take_3_of_4: "take 3 [a, b, c, d] = [a, b, c]"
  by (simp add: eval_nat_numeral)


lemma demo_range_init:
  "get_position_range_init demo_env fresh_state
     = (Returned (), emit [GetConstraints, Log LogDebug] fresh_state)"
  "get_position_range_init broken_env fresh_state
     = (Returned (), emit [GetConstraints, Log LogDebug] fresh_state)"
  "get_position_range_init keyerror_env fresh_state
     = (Returned (), emit [GetConstraints, Log LogDebug] fresh_state)"
  "get_position_range_init flaky_env fresh_state
     = (Returned (), emit [GetConstraints, Log LogDebug] fresh_state)"
  by (simp_all add: get_position_range_init_def constraints_to_range_def replicate_4 take_3_of_4
      demo_env_def broken_env_def keyerror_env_def flaky_env_def fresh_state_def emit_def)

lemma fresh_ranges:
  "scanner_position_ranges fresh_state = [[0, 10], [0, 10], [0, 10], [- 10, 10]]"
  by (simp add: fresh_state_def)

lemma set_position_range_behaviour:
  "(length t = 4 \<and> (\<forall>r\<in>set t. length r = 2 \<and> r ! 0 \<le> r ! 1) \<longrightarrow>
      fst (set_position_range st (RangeTable t)) = Returned 0 \<and>
      get_position_range (snd (set_position_range st (RangeTable t))) = t) \<and>
   (\<not> (length t = 4 \<and> (\<forall>r\<in>set t. length r = 2 \<and> r ! 0 \<le> r ! 1)) \<longrightarrow>
      fst (set_position_range st (RangeTable t))
        = (if length t \<noteq> 4 then Returned (- 1) else Raised TypeError) \<and>
      get_position_range (snd (set_position_range st (RangeTable t))) = get_position_range st)"
  using check_rows_None[of t] check_rows_Some[of t]
  by (cases "check_rows t") (auto simp: set_position_range_def get_position_range_def emit_def)

lemma length_4_explicit: "length xs = 4 \<Longrightarrow> \<exists>a b c d. xs = [a, b, c, d]"
  by (auto simp: length_Suc_conv eval_nat_numeral)

lemma length_2_explicit: "length xs = 2 \<Longrightarrow> \<exists>a b. xs = [a, b]"
  by (auto simp: length_Suc_conv eval_nat_numeral)

lemma ready_explicit:
  assumes "ready st"
  shows "\<exists>l0 h0 l1 h1 l2 h2 l3 h3 p0 p1 p2 p3.
      scanner_position_ranges st = [[l0, h0], [l1, h1], [l2, h2], [l3, h3]] \<and>
      (current_position st = Some (NdArray [p0, p1, p2, p3]) \<or>
       current_position st = Some (PyList [p0, p1, p2, p3]))"
proof -
  from assms have len: "length (scanner_position_ranges st) = 4"
    and rows: "\<forall>r \<in> set (scanner_position_ranges st). length r = 2"
    by (simp_all add: ready_def)
  from length_4_explicit[OF len] obtain r0 r1 r2 r3 where
    rs: "scanner_position_ranges st = [r0, r1, r2, r3]" by blast
  with rows have "length r0 = 2" "length r1 = 2" "length r2 = 2" "length r3 = 2"
    by simp_all
  then obtain l0 h0 l1 h1 l2 h2 l3 h3 where
    "r0 = [l0, h0]" "r1 = [l1, h1]" "r2 = [l2, h2]" "r3 = [l3, h3]"
    using length_2_explicit by metis
  with rs have rs': "scanner_position_ranges st = [[l0, h0], [l1, h1], [l2, h2], [l3, h3]]"
    by simp
  from assms have "\<exists>p. length p = 4 \<and>
      (current_position st = Some (NdArray p) \<or> current_position st = Some (PyList p))"
    by (auto simp: ready_def split: option.splits position.splits)
  then obtain p where p: "length p = 4"
    "current_position st = Some (NdArray p) \<or> current_position st = Some (PyList p)"
    by blast
  from length_4_explicit[OF p(1)] obtain p0 p1 p2 p3 where "p = [p0, p1, p2, p3]" by blast
  with p(2) rs' show ?thesis by blast
qed

lemma set_position_all_in_range:
  assumes rd: "ready st"
    and inr: "\<forall>j<4. scanner_position_ranges st ! j ! 0 \<le> c ! j \<and>
                    c ! j \<le> scanner_position_ranges st ! j ! 1"
  shows "\<exists>lg. trace (snd (scanner_set_position env st (Some (c ! 0)) (Some (c ! 1))
                  (Some (c ! 2)) (Some (c ! 3)))) =
           trace st @ MoveAbs [(''x'', c ! 0), (''y'', c ! 1), (''z'', c ! 2), (''a'', c ! 3)] # lg \<and>
         list_all is_log lg"
proof -
  from ready_explicit[OF rd] obtain l0 h0 l1 h1 l2 h2 l3 h3 p0 p1 p2 p3 where
    rs: "scanner_position_ranges st = [[l0, h0], [l1, h1], [l2, h2], [l3, h3]]"
    and p: "current_position st = Some (NdArray [p0, p1, p2, p3]) \<or>
       current_position st = Some (PyList [p0, p1, p2, p3])"
    by blast
  from inr rs have b: "l0 \<le> c ! 0" "c ! 0 \<le> h0" "l1 \<le> c ! 1" "c ! 1 \<le> h1"
    "l2 \<le> c ! 2" "c ! 2 \<le> h2" "l3 \<le> c ! 3" "c ! 3 \<le> h3"
    by (simp_all add: eval_nat_numeral All_less_Suc)
  from p show ?thesis
  proof
    assume "current_position st = Some (NdArray [p0, p1, p2, p3])"
    with rs b show ?thesis
      by (cases "stage_move_abs env (trace st)
            [(''x'', c ! 0), (''y'', c ! 1), (''z'', c ! 2), (''a'', c ! 3)]")
         (simp_all add: setpos_defs)
  next
    assume "current_position st = Some (PyList [p0, p1, p2, p3])"
    with rs b show ?thesis
      by (cases "stage_move_abs env (trace st)
            [(''x'', c ! 0), (''y'', c ! 1), (''z'', c ! 2), (''a'', c ! 3)]")
         (simp_all add: setpos_defs)
  qed
qed

lemma reads_from_append:
  "reads_from env tr (xs @ ys) \<longleftrightarrow> reads_from env tr xs \<and> reads_from env (tr @ xs) ys"
  by (induction xs arbitrary: tr) auto

lemma reads_from_logs: "list_all is_log lg \<Longrightarrow> reads_from env tr lg"
proof (induction lg arbitrary: tr)
  case Nil
  then show ?case by simp
next
  case (Cons e lg)
  then show ?case by (cases e) simp_all
qed

lemma filter_logs: "list_all is_log lg \<Longrightarrow> filter (\<lambda>e. \<not> is_log e) lg = []"
  by (induction lg) simp_all

lemma scan_pixel_in_range:
  assumes rd: "ready st" and k: "dwell_cnt_bins st = Some k"
    and d: "dwell_delay st = Some d" "0 \<le> d"
    and tgt: "\<forall>tr. \<exists>rc. stage_on_target env tr = Returned rc"
    and cnt: "\<forall>tr. counter_countdata env tr \<noteq> []"
    and i: "i < length cols" "length (cols ! i) = 4" "i < length cd"
    and inr: "\<forall>j<4. scanner_position_ranges st ! j ! 0 \<le> cols ! i ! j \<and>
                    cols ! i ! j \<le> scanner_position_ranges st ! j ! 1"
  shows "\<exists>evs b st'.
      scan_pixel env cols i st cd = (Returned (cd[i := np_mean (last_bins k (hd b))]), st') \<and>
      trace st' = trace st @ evs \<and>
      filter (\<lambda>e. \<not> is_log e) evs =
        [MoveAbs [(''x'', cols ! i ! 0), (''y'', cols ! i ! 1), (''z'', cols ! i ! 2),
                  (''a'', cols ! i ! 3)],
         if i = 0 then OnTarget else Sleep d, ReadCounts b] \<and>
      reads_from env (trace st) evs \<and>
      ready st' \<and> dwell_cnt_bins st' = Some k \<and> dwell_delay st' = Some d \<and>
      scanner_position_ranges st' = scanner_position_ranges st"
proof -
  let ?c = "cols ! i"
  let ?md = "[(''x'', ?c ! 0), (''y'', ?c ! 1), (''z'', ?c ! 2), (''a'', ?c ! 3)]"
  let ?w = "if i = 0 then OnTarget else Sleep d"
  let ?r = "scanner_set_position env st (Some (?c ! 0)) (Some (?c ! 1)) (Some (?c ! 2)) (Some (?c ! 3))"
  from i(2) have cs: "coord ?c 0 = Returned (?c ! 0)" "coord ?c 1 = Returned (?c ! 1)"
      "coord ?c 2 = Returned (?c ! 2)" "coord ?c 3 = Returned (?c ! 3)"
    by (simp_all add: coord_def)
  from scanner_set_position_ready[OF rd, of env "Some (?c ! 0)" "Some (?c ! 1)" "Some (?c ! 2)"
      "Some (?c ! 3)"]
  obtain rc st1 where r: "?r = (Returned rc, st1)" and rd1: "ready st1"
    by (cases ?r) auto
  from scanner_set_position_frame[of st env "Some (?c ! 0)" "Some (?c ! 1)" "Some (?c ! 2)"
      "Some (?c ! 3)"] r k d
  have f1: "dwell_cnt_bins st1 = Some k" "dwell_delay st1 = Some d"
    "scanner_position_ranges st1 = scanner_position_ranges st"
    by (simp_all add: frame_def)
  from set_position_all_in_range[OF rd inr, of env] r obtain lg where
    lg: "trace st1 = trace st @ MoveAbs ?md # lg" "list_all is_log lg"
    by auto
  define st2 where "st2 = emit [?w] st1"
  from tgt obtain rc' where "stage_on_target env (trace st1) = Returned rc'" by blast
  with f1 d(2) have w: "wait_pixel env i st1 = (Returned (), st2)"
    by (simp add: wait_pixel_def on_target_def st2_def)
  define b where "b = counter_countdata env (trace st2)"
  from cnt obtain row rows where buf: "b = row # rows"
    unfolding b_def by (cases "counter_countdata env (trace st2)") auto
  from f1 have k2: "dwell_cnt_bins st2 = Some k" by (simp add: st2_def emit_def)
  define st3 where "st3 = emit [ReadCounts b] st2"
  from buf k2 have s: "sample_counts env st2 = (Returned (np_mean (last_bins k (hd b))), st3)"
    unfolding b_def[symmetric] st3_def
    by (simp add: sample_counts_def b_def[symmetric])
  let ?evs = "MoveAbs ?md # lg @ [?w, ReadCounts b]"
  from i cs r w s
  have "scan_pixel env cols i st cd = (Returned (cd[i := np_mean (last_bins k (hd b))]), st3)"
    by (simp add: scan_pixel_def)
  moreover from lg(1) have tr3: "trace st3 = trace st @ ?evs"
    by (simp add: st3_def st2_def emit_def)
  moreover from lg(2) have "filter (\<lambda>e. \<not> is_log e) ?evs = [MoveAbs ?md, ?w, ReadCounts b]"
    by (simp add: filter_logs)
  moreover have "reads_from env (trace st) ?evs"
  proof -
    have "b = counter_countdata env (trace st @ MoveAbs ?md # lg @ [?w])"
      using lg(1) by (simp add: b_def st2_def emit_def)
    then have "reads_from env (trace st @ [MoveAbs ?md] @ lg) [?w, ReadCounts b]"
      by simp
    moreover have "reads_from env (trace st @ [MoveAbs ?md]) lg"
      using lg(2) by (rule reads_from_logs)
    ultimately have "reads_from env (trace st @ [MoveAbs ?md]) (lg @ [?w, ReadCounts b])"
      by (simp add: reads_from_append)
    then show ?thesis by simp
  qed
  moreover from rd1 have "ready st3"
    by (simp add: ready_def st3_def st2_def emit_def)
  moreover from f1 have "dwell_cnt_bins st3 = Some k" "dwell_delay st3 = Some d"
    "scanner_position_ranges st3 = scanner_position_ranges st"
    by (simp_all add: st3_def st2_def emit_def)
  ultimately show ?thesis by blast
qed

lemma scan_loop_in_range:
  assumes "ready st" "dwell_cnt_bins st = Some k" "dwell_delay st = Some d" "0 \<le> d"
    and tgt: "\<forall>tr. \<exists>rc. stage_on_target env tr = Returned rc"
    and cnt: "\<forall>tr. counter_countdata env tr \<noteq> []"
    and "\<forall>i \<in> set is. i < length cols \<and> length (cols ! i) = 4 \<and> i < length cd"
    and "\<forall>i \<in> set is. \<forall>j<4. scanner_position_ranges st ! j ! 0 \<le> cols ! i ! j \<and>
                    cols ! i ! j \<le> scanner_position_ranges st ! j ! 1"
  shows "\<exists>bufs evs st'.
      scan_loop env cols is st cd =
        (Returned (fold (\<lambda>(i, b) c. c[i := np_mean (last_bins k (hd b))]) (zip is bufs) cd), st') \<and>
      length bufs = length is \<and>
      trace st' = trace st @ evs \<and>
      filter (\<lambda>e. \<not> is_log e) evs =
        concat (map (\<lambda>(i, b).
          [MoveAbs [(''x'', cols ! i ! 0), (''y'', cols ! i ! 1), (''z'', cols ! i ! 2),
                    (''a'', cols ! i ! 3)],
           if i = 0 then OnTarget else Sleep d, ReadCounts b]) (zip is bufs)) \<and>
      reads_from env (trace st) evs"
  using assms(1-4,7,8)
proof (induction "is" arbitrary: st cd)
  case Nil
  then show ?case by simp
next
  case (Cons i "is")
  let ?f = "\<lambda>(i, b) c. c[i := np_mean (last_bins k (hd b))]"
  let ?g = "\<lambda>(i, b).
          [MoveAbs [(''x'', cols ! i ! 0), (''y'', cols ! i ! 1), (''z'', cols ! i ! 2),
                    (''a'', cols ! i ! 3)],
           if i = 0 then OnTarget else Sleep d, ReadCounts b]"
  from Cons.prems(5) have i: "i < length cols" "length (cols ! i) = 4" "i < length cd"
    by simp_all
  from Cons.prems(6) have inr: "\<forall>j<4. scanner_position_ranges st ! j ! 0 \<le> cols ! i ! j \<and>
                    cols ! i ! j \<le> scanner_position_ranges st ! j ! 1"
    by simp
  from scan_pixel_in_range[OF Cons.prems(1-4) tgt cnt i inr] obtain evs1 b st1 where
    px: "scan_pixel env cols i st cd = (Returned (cd[i := np_mean (last_bins k (hd b))]), st1)"
      "trace st1 = trace st @ evs1"
      "filter (\<lambda>e. \<not> is_log e) evs1 = ?g (i, b)"
      "reads_from env (trace st) evs1"
      "ready st1" "dwell_cnt_bins st1 = Some k" "dwell_delay st1 = Some d"
      "scanner_position_ranges st1 = scanner_position_ranges st"
    by auto
  let ?cd1 = "cd[i := np_mean (last_bins k (hd b))]"
  from Cons.prems(5)
  have a5: "\<forall>i \<in> set is. i < length cols \<and> length (cols ! i) = 4 \<and> i < length ?cd1"
    by simp
  from Cons.prems(6) px(8)
  have a6: "\<forall>i \<in> set is. \<forall>j<4. scanner_position_ranges st1 ! j ! 0 \<le> cols ! i ! j \<and>
                    cols ! i ! j \<le> scanner_position_ranges st1 ! j ! 1"
    by simp
  from Cons.IH[OF px(5-7) Cons.prems(4) a5 a6] obtain bufs evs2 st' where
    ih: "scan_loop env cols is st1 ?cd1 = (Returned (fold ?f (zip is bufs) ?cd1), st')"
      "length bufs = length is"
      "trace st' = trace st1 @ evs2"
      "filter (\<lambda>e. \<not> is_log e) evs2 = concat (map ?g (zip is bufs))"
      "reads_from env (trace st1) evs2"
    by blast
  have "scan_loop env cols (i # is) st cd
      = (Returned (fold ?f (zip (i # is) (b # bufs)) cd), st')"
    using px(1) ih(1) by simp
  moreover have "length (b # bufs) = length (i # is)" using ih(2) by simp
  moreover have "trace st' = trace st @ (evs1 @ evs2)" using px(2) ih(3) by simp
  moreover have "filter (\<lambda>e. \<not> is_log e) (evs1 @ evs2)
      = concat (map ?g (zip (i # is) (b # bufs)))"
    using px(3) ih(4) by simp
  moreover have "reads_from env (trace st) (evs1 @ evs2)"
    using px(2,4) ih(5) by (simp add: reads_from_append)
  ultimately show ?case by blast
qed

section \<open>The claims\<close>

subsection \<open>Position range\<close>

text \<open>
  C9. Calling \<open>set_position_range\<close> with no argument (or \<open>None\<close>) does not fail: the stored
  range is replaced by the default table \<open>[[0, 1e-6], [0, 1e-6], [0, 1e-6], [0, 1e-6]]\<close>,
  the success code 0 is returned, and \<open>get_position_range\<close> returns the default table
  afterwards, whatever was configured before.
\<close>

theorem set_position_range_default:
  "set_position_range st RangeNone = (Returned 0, st\<lparr>scanner_position_ranges := default_range\<rparr>)
   \<and> get_position_range (snd (set_position_range st RangeNone))
       = [[0, 1 / 1000000], [0, 1 / 1000000], [0, 1 / 1000000], [0, 1 / 1000000]]"
  by (simp add: set_position_range_def default_range_def get_position_range_def)

text \<open>
  C4. For a valid range table \<open>set_position_range\<close> returns 0 and stores the table, and a table
  with a wrong number of rows is refused with an error message and the error code \<open>-1\<close>
  (lemma \<open>set_position_range_behaviour\<close>). A table of four rows with a row of the wrong arity
  or with inverted bounds is not refused that way: both branches build their message by
  formatting the row itself with the code \<open>d\<close>, so the call raises \<open>TypeError\<close> before
  anything is logged and before \<open>return -1\<close>. The stored table stays as it was.
\<close>

theorem set_position_range_bad_row_raises:
  "set_position_range demo_state (RangeTable [[0, 1], [2, 2], [4, - 3], [5, 6]])
     = (Raised TypeError, demo_state) \<and>
   set_position_range demo_state (RangeTable [[0, 1], [2, 2, 2], [- 3, 4], [5, 6]])
     = (Raised TypeError, demo_state) \<and>
   set_position_range demo_state (RangeTable [[0, 1], [2, 2], [- 3, 4]])
     = (Returned (- 1), emit [Log LogError] demo_state)"
  by (simp add: set_position_range_def)


subsection \<open>Setting the position\<close>

text \<open>
  C1, as amended. Let the range table be four \<open>(min, max)\<close> pairs and the position a NumPy
  array of four entries (the state after an activation that read the stage position). The
  axes are validated and written one after the other, in the order x, y, z, a. When the
  coordinate given for axis \<open>k\<close> is the first one outside its (inclusive) bounds, the call
  returns the error code \<open>-1\<close>, logs an error and issues no move command; the coordinates
  given for the axes before \<open>k\<close> have already been written to the position, and the axes
  from \<open>k\<close> on keep their values. \<open>get_scanner_position\<close> afterwards returns that partly
  updated position; it is the position before the call when \<open>k\<close> is the first axis that was
  given.
\<close>

theorem scanner_set_position_out_of_range:
  assumes rs: "scanner_position_ranges st = [[l0, h0], [l1, h1], [l2, h2], [l3, h3]]"
    and p: "current_position st = Some (NdArray [p0, p1, p2, p3])"
    and k: "k < 4"
    and v: "[x, y, z, a] ! k = Some v"
    and out: "\<not> ([l0, l1, l2, l3] ! k \<le> v \<and> v \<le> [h0, h1, h2, h3] ! k)"
    and before: "\<forall>j<k. \<forall>w. [x, y, z, a] ! j = Some w \<longrightarrow>
                   [l0, l1, l2, l3] ! j \<le> w \<and> w \<le> [h0, h1, h2, h3] ! j"
  shows "scanner_set_position env st x y z a =
    (Returned (- 1),
     emit [Log LogError]
       (st\<lparr>current_position := Some (NdArray (map (\<lambda>j.
            case [x, y, z, a] ! j of Some w \<Rightarrow> if j < k then w else [p0, p1, p2, p3] ! j
                                   | None \<Rightarrow> [p0, p1, p2, p3] ! j) [0 ..< 4]))\<rparr>)) \<and>
    new_events st (snd (scanner_set_position env st x y z a)) = [Log LogError] \<and>
    get_scanner_position (snd (scanner_set_position env st x y z a)) =
      Returned (Some (map (\<lambda>j.
            case [x, y, z, a] ! j of Some w \<Rightarrow> if j < k then w else [p0, p1, p2, p3] ! j
                                   | None \<Rightarrow> [p0, p1, p2, p3] ! j) [0 ..< 4]))"
proof -
  have "scanner_set_position env st x y z a =
    (Returned (- 1),
     emit [Log LogError]
       (st\<lparr>current_position := Some (NdArray (map (\<lambda>j.
            case [x, y, z, a] ! j of Some w \<Rightarrow> if j < k then w else [p0, p1, p2, p3] ! j
                                   | None \<Rightarrow> [p0, p1, p2, p3] ! j) [0 ..< 4]))\<rparr>))"
  proof -
    from k consider "k = 0" | "k = 1" | "k = 2" | "k = 3" by linarith
    then show ?thesis
    proof cases
      case 1
      with rs p v out show ?thesis
        by (cases y; cases z; cases a) (auto simp: setpos_defs upt_rec)
    next
      case 2
      with rs p v out before show ?thesis
        by (cases x; cases z; cases a) (auto simp: setpos_defs upt_rec)
    next
      case 3
      with rs p v out before show ?thesis
        by (cases x; cases y; cases a)
           (auto simp: setpos_defs upt_rec eval_nat_numeral All_less_Suc)
    next
      case 4
      with rs p v out before show ?thesis
        by (cases x; cases y; cases z)
           (auto simp: setpos_defs upt_rec eval_nat_numeral All_less_Suc)
    qed
  qed
  then show ?thesis
    by (simp add: new_events_def emit_def get_scanner_position_def)
qed

theorem scanner_set_position_out_of_range_witness:
  "scanner_set_position demo_env demo_state (Some 5) (Some 20) None None =
     (Returned (- 1),
      emit [Log LogError] (demo_state\<lparr>current_position := Some (NdArray [5, 1, 1, 1])\<rparr>)) \<and>
   new_events demo_state
     (snd (scanner_set_position demo_env demo_state (Some 5) (Some 20) None None)) = [Log LogError] \<and>
   get_scanner_position
     (snd (scanner_set_position demo_env demo_state (Some 5) (Some 20) None None)) =
     Returned (Some [5, 1, 1, 1])"
proof -
  have rs: "scanner_position_ranges demo_state = [[0, 10], [0, 10], [0, 10], [- 10, 10]]"
    and p: "current_position demo_state = Some (NdArray [1, 1, 1, 1])"
    by (simp_all add: demo_state_def)
  have k: "(1::nat) < 4" by simp
  have v: "[Some 5, Some 20, None, None] ! 1 = Some (20::real)" by simp
  have out: "\<not> ([0, 0, 0, - 10] ! 1 \<le> (20::real) \<and> (20::real) \<le> [10, 10, 10, 10] ! 1)"
    by simp
  have before: "\<forall>j<1. \<forall>w. [Some 5, Some 20, None, None] ! j = Some w \<longrightarrow>
      [0, 0, 0, - 10] ! j \<le> (w::real) \<and> w \<le> [10, 10, 10, 10] ! j"
    by simp
  from scanner_set_position_out_of_range[OF rs p k v out before, of demo_env]
  show ?thesis
    by (auto simp: upt_rec)
qed

theorem scanner_set_position_partial_update_counterexample:
  "in_range demo_state 1 20 = Returned False \<and>
   fst (scanner_set_position demo_env demo_state (Some 5) (Some 20) None None) = Returned (- 1) \<and>
   get_scanner_position demo_state = Returned (Some [1, 1, 1, 1]) \<and>
   get_scanner_position
     (snd (scanner_set_position demo_env demo_state (Some 5) (Some 20) None None))
     = Returned (Some [5, 1, 1, 1])"
  by (simp add: setpos_defs demo_state_def get_scanner_position_def)

text \<open>
  C3, as amended. Let the range table be four \<open>(min, max)\<close> pairs and the position a NumPy
  array of four entries (the state after an activation that read the stage position). When
  every provided coordinate passes its range check, the position is updated component-wise
  for exactly the provided axes (the omitted axes keep their values) and one move command
  with exactly the provided axes is sent to the stage. The call returns 0 when the stage
  accepts the command. When the stage raises, the call logs an error and returns the error
  code \<open>-1\<close>; the position keeps the values written before the command was sent (nothing
  is rolled back).
\<close>

theorem scanner_set_position_in_range:
  assumes rs: "scanner_position_ranges st = [[l0, h0], [l1, h1], [l2, h2], [l3, h3]]"
    and p: "current_position st = Some (NdArray [p0, p1, p2, p3])"
    and inr: "\<forall>j<4. \<forall>w. [x, y, z, a] ! j = Some w \<longrightarrow>
                   [l0, l1, l2, l3] ! j \<le> w \<and> w \<le> [h0, h1, h2, h3] ! j"
  shows "scanner_set_position env st x y z a =
    (let md = (case x of Some w \<Rightarrow> [(''x'', w)] | None \<Rightarrow> []) @
              (case y of Some w \<Rightarrow> [(''y'', w)] | None \<Rightarrow> []) @
              (case z of Some w \<Rightarrow> [(''z'', w)] | None \<Rightarrow> []) @
              (case a of Some w \<Rightarrow> [(''a'', w)] | None \<Rightarrow> []);
         st1 = st\<lparr>current_position := Some (NdArray
                 [case x of Some w \<Rightarrow> w | None \<Rightarrow> p0,
                  case y of Some w \<Rightarrow> w | None \<Rightarrow> p1,
                  case z of Some w \<Rightarrow> w | None \<Rightarrow> p2,
                  case a of Some w \<Rightarrow> w | None \<Rightarrow> p3])\<rparr>
     in case stage_move_abs env (trace st) md of
          None \<Rightarrow> (Returned 0, emit [MoveAbs md] st1)
        | Some e \<Rightarrow> (Returned (- 1), emit [MoveAbs md, Log LogError] st1))"
  using rs p inr
  by (cases x; cases y; cases z; cases a)
     (auto simp: setpos_defs eval_nat_numeral All_less_Suc Let_def split: option.splits)

theorem scanner_set_position_in_range_witness:
  "scanner_set_position demo_env demo_state (Some 5) None (Some 2) None =
     (Returned 0,
      emit [MoveAbs [(''x'', 5), (''z'', 2)]]
        (demo_state\<lparr>current_position := Some (NdArray [5, 1, 2, 1])\<rparr>)) \<and>
   scanner_set_position broken_env demo_state (Some 5) None (Some 2) None =
     (Returned (- 1),
      emit [MoveAbs [(''x'', 5), (''z'', 2)], Log LogError]
        (demo_state\<lparr>current_position := Some (NdArray [5, 1, 2, 1])\<rparr>))"
proof -
  have rs: "scanner_position_ranges demo_state = [[0, 10], [0, 10], [0, 10], [- 10, 10]]"
    and p: "current_position demo_state = Some (NdArray [1, 1, 1, 1])"
    by (simp_all add: demo_state_def)
  have inr: "\<forall>j<4. \<forall>w. [Some 5, None, Some 2, None] ! j = Some w \<longrightarrow>
      [0, 0, 0, - 10] ! j \<le> (w::real) \<and> w \<le> [10, 10, 10, 10] ! j"
    by (auto simp: eval_nat_numeral All_less_Suc)
  from scanner_set_position_in_range[OF rs p inr, of demo_env]
    scanner_set_position_in_range[OF rs p inr, of broken_env]
  show ?thesis
    by (auto simp: demo_env_def broken_env_def Let_def)
qed

theorem scanner_set_position_no_rollback_counterexample:
  "in_range demo_state 0 5 = Returned True \<and>
   stage_move_abs broken_env (trace demo_state) [(''x'', 5)] = Some DeviceError \<and>
   fst (scanner_set_position broken_env demo_state (Some 5) None None None) = Returned (- 1) \<and>
   get_scanner_position demo_state = Returned (Some [1, 1, 1, 1]) \<and>
   get_scanner_position (snd (scanner_set_position broken_env demo_state (Some 5) None None None))
     = Returned (Some [5, 1, 1, 1])"
  by (simp add: setpos_defs demo_state_def broken_env_def demo_env_def get_scanner_position_def)

subsection \<open>The line scan\<close>

text \<open>
  C5, as amended. For every input to \<open>scan_line\<close> that is not of an array type (the default
  \<open>None\<close> among them) the call logs an error, returns the single-element sentinel \<open>[-1.]\<close>
  and issues no move command. An input of an array type is not checked for its shape, and
  the following ones do not return the sentinel, but do not move the stage either (they add
  no event at all): a set or frozenset, a one-dimensional array or flat sequence, and an
  empty or ragged nested sequence raise \<open>IndexError\<close>; a nested list or tuple of rows of equal
  length raises \<open>TypeError\<close>, or returns an empty result when the rows are empty; a
  two-dimensional array with fewer than four rows raises \<open>IndexError\<close>, or returns an empty
  result when it has no column.
\<close>

theorem scan_line_no_motion:
  "scan_line env st LineNoArray = (Returned (Array1 [Num (- 1)]), emit [Log LogError] st) \<and>
   new_events st (snd (scan_line env st LineNoArray)) = [Log LogError] \<and>
   scan_line env st LineSet = (Raised IndexError, st) \<and>
   scan_line env st (LineArray1 xs) = (Raised IndexError, st) \<and>
   fst (scan_line env st (LineNested rows)) =
     (if rows \<noteq> [] \<and> list_all (\<lambda>r. length r = length (hd rows)) rows
      then (if hd rows = [] then Returned (Array2 []) else Raised TypeError)
      else Raised IndexError) \<and>
   new_events st (snd (scan_line env st (LineNested rows))) = [] \<and>
   ((\<forall>c \<in> set cols. length c < 4) \<longrightarrow>
      fst (scan_line env st (LineArray2 cols)) =
        (if cols = [] then Returned (Array2 []) else Raised IndexError) \<and>
      new_events st (snd (scan_line env st (LineArray2 cols))) = [])"
proof -
  have nested: "fst (scan_line env st (LineNested rows)) =
     (if rows \<noteq> [] \<and> list_all (\<lambda>r. length r = length (hd rows)) rows
      then (if hd rows = [] then Returned (Array2 []) else Raised TypeError)
      else Raised IndexError) \<and>
   new_events st (snd (scan_line env st (LineNested rows))) = []"
    by (auto simp: scan_line_def np_shape_nested_def set_up_line_def new_events_def Let_def
        upt_rec split: list.splits)
  have short: "fst (scan_line env st (LineArray2 cols)) =
        (if cols = [] then Returned (Array2 []) else Raised IndexError) \<and>
      new_events st (snd (scan_line env st (LineArray2 cols))) = []"
    if sh: "\<forall>c \<in> set cols. length c < 4"
  proof (cases cols)
    case Nil
    then show ?thesis
      by (simp add: scan_line_def set_up_line_def new_events_def)
  next
    case (Cons c cs)
    with sh have "length c < 4" by simp
    then have "coord c 3 = Raised IndexError" by (simp add: coord_def)
    with Cons have px: "scan_pixel env cols 0 s cd = (Raised IndexError, s)" for s cd
      by (simp add: scan_pixel_def split: outcome.splits)
    from Cons have ne: "cols \<noteq> []" by simp
    then have up: "[0 ..< length cols] = 0 # [1 ..< length cols]"
      by (simp add: upt_conv_Cons)
    have lp: "scan_loop env cols [0 ..< length cols] s cd = (Raised IndexError, s)" for s cd
      unfolding up by (simp add: px)
    from ne show ?thesis
      by (simp add: scan_line_def lp set_up_line_def new_events_def Let_def)
  qed
  from nested short show ?thesis
    by (simp add: scan_line_def new_events_def emit_def)
qed

theorem scan_line_no_motion_witness:
  "fst (scan_line demo_env demo_state (LineArray2 [[1, 2, 3], [2, 2, 3]])) = Raised IndexError \<and>
   new_events demo_state (snd (scan_line demo_env demo_state (LineArray2 [[1, 2, 3], [2, 2, 3]]))) = [] \<and>
   scan_line demo_env demo_state LineNoArray
     = (Returned (Array1 [Num (- 1)]), emit [Log LogError] demo_state) \<and>
   fst (scan_line demo_env demo_state (LineNested [[1, 2], [2, 2], [3, 3], [0, 0]]))
     = Raised TypeError \<and>
   new_events demo_state
     (snd (scan_line demo_env demo_state (LineNested [[1, 2], [2, 2], [3, 3], [0, 0]]))) = []"
proof -
  have sh: "\<forall>c \<in> set [[1, 2, 3], [2, 2, 3 :: real]]. length c < 4" by simp
  from scan_line_no_motion[of demo_env demo_state _ "[[1, 2], [2, 2], [3, 3], [0, 0]]" "[[1, 2, 3], [2, 2, 3]]"] sh
  show ?thesis by simp
qed

theorem scan_line_wrong_shape_counterexample:
  "scan_line demo_env demo_state (LineArray2 [[5, 5, 5, 0, 0]]) =
     (Returned (Array2 [[Num (9 / 2)]]),
      demo_state\<lparr>line_length := Some 1, current_position := Some (NdArray [5, 5, 5, 0]),
        trace := [MoveAbs [(''x'', 5), (''y'', 5), (''z'', 5), (''a'', 0)], OnTarget,
                  ReadCounts [[5, 7, 2]]]\<rparr>)"
  by (simp add: scan_defs setpos_defs demo_state_def demo_env_def upt_rec)

text \<open>
  C2, as amended. Let the adapter be ready (range table \<open>4 \<times> 2\<close>, position with four
  entries), with \<open>dwell_cnt_bins = k \<ge> 1\<close> and a dwell delay \<open>d \<ge> 0\<close>, let the stage's
  \<open>on_target\<close> not raise and the counter's buffer have a channel 0. Then for every path that
  is a \<open>4 \<times> N\<close> NumPy array whose coordinates all lie within the configured ranges,
  \<open>scan_line\<close> returns an \<open>N \<times> 1\<close> column, and apart from log messages its events are, for
  the pixels \<open>i = 0, ..., N - 1\<close> in this order: the move command to the four coordinates of
  column \<open>i\<close>, the wait (the barrier for pixel 0, the dwell delay for the others), and one
  read of the counter. Every read returns the buffer the counter holds at that moment, and
  sample \<open>i\<close> is the mean of the last \<open>k\<close> entries (all of them, when there are fewer) of
  channel 0 of the buffer read for pixel \<open>i\<close>.
\<close>

theorem scan_line_visits_and_samples:
  assumes rd: "ready st" and k: "dwell_cnt_bins st = Some k" "1 \<le> k"
    and d: "dwell_delay st = Some d" "0 \<le> d"
    and tgt: "\<forall>tr. \<exists>rc. stage_on_target env tr = Returned rc"
    and cnt: "\<forall>tr. counter_countdata env tr \<noteq> []"
    and cols: "\<forall>c \<in> set cols. length c = 4"
    and inr: "\<forall>c \<in> set cols. \<forall>j<4. scanner_position_ranges st ! j ! 0 \<le> c ! j \<and>
                    c ! j \<le> scanner_position_ranges st ! j ! 1"
  shows "\<exists>bufs st'.
      scan_line env st (LineArray2 cols) =
        (Returned (Array2 (map (\<lambda>b. [np_mean (drop (length (hd b) - nat k) (hd b))]) bufs)), st') \<and>
      length bufs = length cols \<and>
      filter (\<lambda>e. \<not> is_log e) (new_events st st') =
        concat (map (\<lambda>(i, b).
          [MoveAbs [(''x'', cols ! i ! 0), (''y'', cols ! i ! 1), (''z'', cols ! i ! 2),
                    (''a'', cols ! i ! 3)],
           if i = 0 then OnTarget else Sleep d, ReadCounts b]) (zip [0 ..< length cols] bufs)) \<and>
      reads_from env (trace st) (new_events st st')"
proof -
  let ?n = "length cols"
  let ?st0 = "st\<lparr>line_length := Some ?n\<rparr>"
  let ?cd0 = "replicate ?n (Num 0)"
  let ?f = "\<lambda>b. np_mean (last_bins k (hd b))"
  have rd0: "ready ?st0" "dwell_cnt_bins ?st0 = Some k" "dwell_delay ?st0 = Some d"
    using rd k d by (simp_all add: ready_def)
  from cols have a5: "\<forall>i \<in> set [0 ..< ?n]. i < length cols \<and> length (cols ! i) = 4 \<and> i < length ?cd0"
    by simp
  from inr have a6: "\<forall>i \<in> set [0 ..< ?n]. \<forall>j<4.
      scanner_position_ranges ?st0 ! j ! 0 \<le> cols ! i ! j \<and>
      cols ! i ! j \<le> scanner_position_ranges ?st0 ! j ! 1"
    by simp
  from scan_loop_in_range[OF rd0 d(2) tgt cnt a5 a6] obtain bufs evs st' where
    lp: "scan_loop env cols [0 ..< ?n] ?st0 ?cd0 =
        (Returned (fold (\<lambda>(i, b) c. c[i := ?f b]) (zip [0 ..< ?n] bufs) ?cd0), st')"
    and b: "length bufs = length [0 ..< ?n]" "trace st' = trace ?st0 @ evs"
      "filter (\<lambda>e. \<not> is_log e) evs =
        concat (map (\<lambda>(i, b).
          [MoveAbs [(''x'', cols ! i ! 0), (''y'', cols ! i ! 1), (''z'', cols ! i ! 2),
                    (''a'', cols ! i ! 3)],
           if i = 0 then OnTarget else Sleep d, ReadCounts b]) (zip [0 ..< ?n] bufs))"
      "reads_from env (trace ?st0) evs"
    by blast
  from b(1) have len: "length bufs = ?n" by simp
  from fold_store_upt[of 0 bufs ?cd0 ?f] len
  have "fold (\<lambda>(i, b) c. c[i := ?f b]) (zip [0 ..< ?n] bufs) ?cd0 = map ?f bufs"
    by simp
  moreover from k(2) have "?f = (\<lambda>b. np_mean (drop (length (hd b) - nat k) (hd b)))"
    by (simp add: last_bins_def)
  ultimately have cd: "fold (\<lambda>(i, b) c. c[i := ?f b]) (zip [0 ..< ?n] bufs) ?cd0
      = map (\<lambda>b. np_mean (drop (length (hd b) - nat k) (hd b))) bufs"
    by simp
  from b(2) have ne: "new_events st st' = evs" by (simp add: new_events_def)
  from lp cd have "scan_line env st (LineArray2 cols) =
        (Returned (Array2 (map (\<lambda>b. [np_mean (drop (length (hd b) - nat k) (hd b))]) bufs)), st')"
    by (simp add: scan_line_def set_up_line_def comp_def)
  with len b(3,4) ne show ?thesis by auto
qed

theorem scan_line_visits_and_samples_witness:
  "(\<exists>bufs st'.
      scan_line demo_env demo_state (LineArray2 [[1, 2, 3, 0], [2, 2, 3, 0]]) =
        (Returned (Array2 (map (\<lambda>b. [np_mean (drop (length (hd b) - nat 2) (hd b))]) bufs)), st') \<and>
      length bufs = length [[1, 2, 3, 0], [2, 2, 3, 0 :: real]] \<and>
      filter (\<lambda>e. \<not> is_log e) (new_events demo_state st') =
        concat (map (\<lambda>(i, b).
          [MoveAbs [(''x'', [[1, 2, 3, 0], [2, 2, 3, 0]] ! i ! 0),
                    (''y'', [[1, 2, 3, 0], [2, 2, 3, 0]] ! i ! 1),
                    (''z'', [[1, 2, 3, 0], [2, 2, 3, 0]] ! i ! 2),
                    (''a'', [[1, 2, 3, 0], [2, 2, 3, 0]] ! i ! 3)],
           if i = 0 then OnTarget else Sleep (2 / 100), ReadCounts b])
          (zip [0 ..< length [[1, 2, 3, 0], [2, 2, 3, 0 :: real]]] bufs)) \<and>
      reads_from demo_env (trace demo_state) (new_events demo_state st')) \<and>
   fst (scan_line demo_env demo_state (LineArray2 [[1, 2, 3, 0], [2, 2, 3, 0]]))
     = Returned (Array2 [[Num (9 / 2)], [Num 6]])"
proof -
  have rd: "ready demo_state" by (simp add: ready_def demo_state_def)
  have k: "dwell_cnt_bins demo_state = Some 2" "(1::int) \<le> 2"
    by (simp_all add: demo_state_def)
  have d: "dwell_delay demo_state = Some (2 / 100)" "(0::real) \<le> 2 / 100"
    by (simp_all add: demo_state_def)
  have tgt: "\<forall>tr. \<exists>rc. stage_on_target demo_env tr = Returned rc"
    by (simp add: demo_env_def)
  have cnt: "\<forall>tr. counter_countdata demo_env tr \<noteq> []"
    by (simp add: demo_env_def)
  have cols: "\<forall>c \<in> set [[1, 2, 3, 0], [2, 2, 3, 0 :: real]]. length c = 4"
    by simp
  have inr: "\<forall>c \<in> set [[1, 2, 3, 0], [2, 2, 3, 0 :: real]]. \<forall>j<4.
      scanner_position_ranges demo_state ! j ! 0 \<le> c ! j \<and>
      c ! j \<le> scanner_position_ranges demo_state ! j ! 1"
    by (simp add: demo_state_def eval_nat_numeral All_less_Suc)
  from scan_line_visits_and_samples[OF rd k d tgt cnt cols inr] show ?thesis
    by (simp add: demo_scan)
qed

theorem scan_line_unvisited_counterexample:
  "fst (scan_line demo_env demo_state (LineNested [[1], [2], [3], [0]])) = Raised TypeError \<and>
   scan_line demo_env demo_state (LineArray2 [[50, 50, 50, 0]]) =
     (Returned (Array2 [[Num (9 / 2)]]),
      demo_state\<lparr>line_length := Some 1,
        trace := [Log LogError, OnTarget, ReadCounts [[5, 7, 2]]]\<rparr>)"
  by (simp add: scan_defs setpos_defs np_shape_nested_def demo_state_def demo_env_def upt_rec)



text \<open>
  C8, as amended. A line scan over a two-dimensional array of \<open>N\<close> columns either returns an
  \<open>N \<times> 1\<close> column after reading the counter once for each of the \<open>N\<close> pixels, or raises the
  exception that the scan of some pixel \<open>i\<close> raised, after the pixels before \<open>i\<close> were scanned
  and without visiting a later pixel; it never returns fewer than \<open>N\<close> samples. A
  position-set call that fails with the error code \<open>-1\<close> (a coordinate out of range, a move
  the stage refuses) does not make the scan raise: its return code is not looked at, so a
  ready adapter (with \<open>dwell_cnt_bins\<close> set and a dwell delay \<open>d \<ge> 0\<close>) whose barrier does not
  raise and whose counter has a channel 0 returns a full column for every \<open>4 \<times> N\<close> array,
  whatever its coordinates are and whatever the stage answers to the move commands.
\<close>

theorem scan_line_all_or_raise:
  "((\<exists>cd st'. scan_line env st (LineArray2 cols) = (Returned (Array2 (map (\<lambda>v. [v]) cd)), st') \<and>
       length cd = length cols \<and> length (reads (new_events st st')) = length cols)
    \<or> (\<exists>e i cd_i st_i st'. scan_line env st (LineArray2 cols) = (Raised e, st') \<and>
         i < length cols \<and>
         scan_loop env cols [0 ..< i] (snd (set_up_line st (length cols)))
            (replicate (length cols) (Num 0)) = (Returned cd_i, st_i) \<and>
         scan_pixel env cols i st_i cd_i = (Raised e, st'))) \<and>
   (ready st \<and> dwell_cnt_bins st = Some k \<and> dwell_delay st = Some d \<and> 0 \<le> d \<and>
    (\<forall>tr. \<exists>rc. stage_on_target env tr = Returned rc) \<and>
    (\<forall>tr. counter_countdata env tr \<noteq> []) \<and>
    (\<forall>c \<in> set cols. length c = 4) \<longrightarrow>
    (\<exists>cd st'. scan_line env st (LineArray2 cols) = (Returned (Array2 (map (\<lambda>v. [v]) cd)), st') \<and>
       length cd = length cols \<and> length (reads (new_events st st')) = length cols))"
proof -
  let ?n = "length cols"
  let ?st0 = "snd (set_up_line st ?n)"
  let ?cd0 = "replicate ?n (Num 0)"
  have returned: "\<exists>cd st'. scan_line env st (LineArray2 cols)
        = (Returned (Array2 (map (\<lambda>v. [v]) cd)), st') \<and>
       length cd = length cols \<and> length (reads (new_events st st')) = length cols"
    if lp: "scan_loop env cols [0 ..< ?n] ?st0 ?cd0 = (Returned cd, st')" for cd st'
  proof -
    have tr0: "trace ?st0 = trace st" by (simp add: set_up_line_def)
    from scan_loop_trace[OF lp] tr0 have "length cd = ?n" "length (reads (new_events st st')) = ?n"
      by (auto simp: new_events_def)
    moreover from lp have "scan_line env st (LineArray2 cols)
        = (Returned (Array2 (map (\<lambda>v. [v]) cd)), st')"
      by (simp add: scan_line_def)
    ultimately show ?thesis by blast
  qed
  have total: "\<exists>cd st'. scan_line env st (LineArray2 cols)
        = (Returned (Array2 (map (\<lambda>v. [v]) cd)), st') \<and>
       length cd = length cols \<and> length (reads (new_events st st')) = length cols"
    if h: "ready st" "dwell_cnt_bins st = Some k" "dwell_delay st = Some d" "0 \<le> d"
      "\<forall>tr. \<exists>rc. stage_on_target env tr = Returned rc"
      "\<forall>tr. counter_countdata env tr \<noteq> []" "\<forall>c \<in> set cols. length c = 4"
  proof -
    have rd0: "ready ?st0" "dwell_cnt_bins ?st0 = Some k" "dwell_delay ?st0 = Some d"
      using h(1-3) by (simp_all add: ready_def set_up_line_def)
    from h(7) have "\<forall>i \<in> set [0 ..< ?n]. i < length cols \<and> length (cols ! i) = 4 \<and>
        i < length ?cd0"
      by simp
    from scan_loop_ready[OF rd0 h(4) h(5) h(6) this] obtain cd st' where
      "scan_loop env cols [0 ..< ?n] ?st0 ?cd0 = (Returned cd, st')"
      by blast
    then show ?thesis by (rule returned)
  qed
  have dichotomy: "(\<exists>cd st'. scan_line env st (LineArray2 cols)
        = (Returned (Array2 (map (\<lambda>v. [v]) cd)), st') \<and>
       length cd = length cols \<and> length (reads (new_events st st')) = length cols)
    \<or> (\<exists>e i cd_i st_i st'. scan_line env st (LineArray2 cols) = (Raised e, st') \<and>
         i < length cols \<and>
         scan_loop env cols [0 ..< i] ?st0 ?cd0 = (Returned cd_i, st_i) \<and>
         scan_pixel env cols i st_i cd_i = (Raised e, st'))"
  proof (cases "scan_loop env cols [0 ..< ?n] ?st0 ?cd0")
    case (Pair out st')
    show ?thesis
    proof (cases out)
      case (Returned cd)
      with Pair have "scan_loop env cols [0 ..< ?n] ?st0 ?cd0 = (Returned cd, st')" by simp
      from returned[OF this] show ?thesis by blast
    next
      case (Raised e)
      with Pair have lp: "scan_loop env cols [0 ..< ?n] ?st0 ?cd0 = (Raised e, st')" by simp
      from scan_loop_Raised[OF lp] obtain pre i post cd_i st_i where
        dc: "[0 ..< ?n] = pre @ i # post" "scan_loop env cols pre ?st0 ?cd0 = (Returned cd_i, st_i)"
          "scan_pixel env cols i st_i cd_i = (Raised e, st')"
        by blast
      from upt_split[OF dc(1)] have "pre = [0 ..< i]" "i < ?n" by simp_all
      moreover from lp have "scan_line env st (LineArray2 cols) = (Raised e, st')"
        by (simp add: scan_line_def)
      ultimately show ?thesis using dc(2,3) by blast
    qed
  qed
  from dichotomy total show ?thesis by blast
qed

theorem scan_line_all_or_raise_witness:
  "\<exists>cd st'. scan_line broken_env demo_state (LineArray2 [[1, 2, 3, 0], [50, 2, 3, 0]])
        = (Returned (Array2 (map (\<lambda>v. [v]) cd)), st') \<and>
     length cd = length [[1, 2, 3, 0], [50, 2, 3, 0 :: real]] \<and>
     length (reads (new_events demo_state st')) = length [[1, 2, 3, 0], [50, 2, 3, 0 :: real]]"
proof -
  have h: "ready demo_state \<and> dwell_cnt_bins demo_state = Some 2 \<and>
      dwell_delay demo_state = Some (2 / 100) \<and> (0::real) \<le> 2 / 100 \<and>
      (\<forall>tr. \<exists>rc. stage_on_target broken_env tr = Returned rc) \<and>
      (\<forall>tr. counter_countdata broken_env tr \<noteq> []) \<and>
      (\<forall>c \<in> set [[1, 2, 3, 0], [50, 2, 3, 0 :: real]]. length c = 4)"
    by (simp add: ready_def demo_state_def broken_env_def demo_env_def)
  from scan_line_all_or_raise[of broken_env demo_state "[[1, 2, 3, 0], [50, 2, 3, 0]]" 2 "2 / 100"] h
  show ?thesis by blast
qed

theorem scan_line_failed_pixel_counterexample:
  "fst (scanner_set_position broken_env demo_state (Some 1) (Some 2) (Some 3) (Some 0))
     = Returned (- 1) \<and>
   scan_line broken_env demo_state (LineArray2 [[1, 2, 3, 0], [50, 2, 3, 0]]) =
     (Returned (Array2 [[Num 5], [Num (13 / 2)]]),
      demo_state\<lparr>line_length := Some 2, current_position := Some (NdArray [1, 2, 3, 0]),
        trace := [MoveAbs [(''x'', 1), (''y'', 2), (''z'', 3), (''a'', 0)], Log LogError,
                  OnTarget, ReadCounts [[5, 7, 3]],
                  Log LogError, Sleep (2 / 100), ReadCounts [[5, 7, 6]]]\<rparr>)"
  by (simp add: scan_defs setpos_defs demo_state_def broken_env_def demo_env_def upt_rec)


subsection \<open>Activation\<close>




text \<open>
  C10. Let the activation come as far as the position query, and let the query that
  succeeds (the first one, or the retry after a first failure other than \<open>KeyError\<close>) return
  a dictionary with entries for x, y and z. Then \<open>on_activate\<close> returns 0 and the position is
  seeded with these three entries and 0 for the a axis, whatever else the dictionary holds;
  \<open>get_scanner_position\<close> right after returns \<open>[x, y, z, 0]\<close>.
\<close>

theorem on_activate_fourth_axis_zero:
  assumes init: "get_position_range_init env st = (Returned u, st1)"
    and rs: "scanner_position_ranges st = [[l0, h0], [l1, h1], [l2, h2], [l3, h3]]"
    and dict: "stage_get_pos env tr = Returned pos_dict"
      "map_of pos_dict ''x'' = Some px" "map_of pos_dict ''y'' = Some py"
      "map_of pos_dict ''z'' = Some pz"
    and tr: "tr = trace st1 \<or>
             tr = trace st1 @ [GetPos, Sleep (1 / 10)] \<and>
               (\<exists>e. stage_get_pos env (trace st1) = Raised e \<and> e \<noteq> KeyError)"
  shows "fst (on_activate env st) = Returned 0 \<and>
         current_position (snd (on_activate env st)) = Some (NdArray [px, py, pz, 0]) \<and>
         get_scanner_position (snd (on_activate env st)) = Returned (Some [px, py, pz, 0])"
proof -
  from get_position_range_init_emit[OF init] rs
  have rs1: "get_position_range st1 = [[l0, h0], [l1, h1], [l2, h2], [l3, h3]]"
    by (auto simp: emit_def get_position_range_def)
  from tr show ?thesis
  proof
    assume "tr = trace st1"
    with dict init show ?thesis
      by (simp add: on_activate_def rs1 middle_loop_explicit get_scanner_position_init_def
          read_stage_position_def np_array_def emit_def get_scanner_position_def)
  next
    assume "tr = trace st1 @ [GetPos, Sleep (1 / 10)] \<and>
               (\<exists>e. stage_get_pos env (trace st1) = Raised e \<and> e \<noteq> KeyError)"
    with dict init show ?thesis
      by (auto simp: on_activate_def rs1 middle_loop_explicit get_scanner_position_init_def
          read_stage_position_def np_array_def emit_def get_scanner_position_def)
  qed
qed

theorem on_activate_fourth_axis_zero_witness:
  "fst (on_activate demo_env fresh_state) = Returned 0 \<and>
   current_position (snd (on_activate demo_env fresh_state)) = Some (NdArray [1, 2, 3, 0]) \<and>
   get_scanner_position (snd (on_activate demo_env fresh_state)) = Returned (Some [1, 2, 3, 0]) \<and>
   fst (on_activate flaky_env fresh_state) = Returned 0 \<and>
   current_position (snd (on_activate flaky_env fresh_state)) = Some (NdArray [4, 5, 6, 0]) \<and>
   get_scanner_position (snd (on_activate flaky_env fresh_state)) = Returned (Some [4, 5, 6, 0])"
proof -
  let ?st1 = "emit [GetConstraints, Log LogDebug] fresh_state"
  have d1: "stage_get_pos demo_env (trace ?st1)
      = Returned [(''x'', 1), (''y'', 2), (''z'', 3), (''a'', 7)]"
    by (simp add: demo_env_def)
  have k1: "map_of [(''x'', 1), (''y'', 2), (''z'', 3), (''a'', 7 :: real)] ''x'' = Some 1"
    "map_of [(''x'', 1), (''y'', 2), (''z'', 3), (''a'', 7 :: real)] ''y'' = Some 2"
    "map_of [(''x'', 1), (''y'', 2), (''z'', 3), (''a'', 7 :: real)] ''z'' = Some 3"
    by simp_all
  have t1: "trace ?st1 = trace ?st1 \<or>
      trace ?st1 = trace ?st1 @ [GetPos, Sleep (1 / 10)] \<and>
        (\<exists>e. stage_get_pos demo_env (trace ?st1) = Raised e \<and> e \<noteq> KeyError)"
    by simp
  have d2: "stage_get_pos flaky_env (trace ?st1 @ [GetPos, Sleep (1 / 10)])
      = Returned [(''x'', 4), (''y'', 5), (''z'', 6), (''a'', 7)]"
    by (simp add: flaky_env_def)
  have k2: "map_of [(''x'', 4), (''y'', 5), (''z'', 6), (''a'', 7 :: real)] ''x'' = Some 4"
    "map_of [(''x'', 4), (''y'', 5), (''z'', 6), (''a'', 7 :: real)] ''y'' = Some 5"
    "map_of [(''x'', 4), (''y'', 5), (''z'', 6), (''a'', 7 :: real)] ''z'' = Some 6"
    by simp_all
  have "stage_get_pos flaky_env (trace ?st1) = Raised DeviceError"
    by (simp add: flaky_env_def emit_def fresh_state_def)
  then have t2: "trace ?st1 @ [GetPos, Sleep (1 / 10)] = trace ?st1 \<or>
      trace ?st1 @ [GetPos, Sleep (1 / 10)] = trace ?st1 @ [GetPos, Sleep (1 / 10)] \<and>
        (\<exists>e. stage_get_pos flaky_env (trace ?st1) = Raised e \<and> e \<noteq> KeyError)"
    by simp
  from on_activate_fourth_axis_zero[OF demo_range_init(1) fresh_ranges d1 k1 t1]
    on_activate_fourth_axis_zero[OF demo_range_init(4) fresh_ranges d2 k2 t2]
  show ?thesis by blast
qed

end
